theory Spec2Isabelle
  imports Main "HOL-Library.Product_Lexorder"
begin

section \<open>Clock values\<close>

text \<open>
  The coordinator of \<^verbatim>\<open>custom_components/tarif_edf/coordinator.py\<close> works on Python's
  \<^verbatim>\<open>datetime.time\<close>, \<^verbatim>\<open>datetime.date\<close> and \<^verbatim>\<open>datetime.datetime\<close>. Python compares two
  times field by field (hour, minute, second, microsecond) and two dates by year, month
  and day, so both are tuples under the lexicographic order.
\<close>

type_synonym time = "nat \<times> nat \<times> nat \<times> nat"

type_synonym date = "nat \<times> nat \<times> nat"

type_synonym datetime = "date \<times> time"

text \<open>The exceptions that the modelled code can raise.\<close>

datatype error = ValueError | AttributeError | TypeError | IndexError | OverflowError | UpdateFailed

subsection \<open>\<^verbatim>\<open>str_to_time\<close>: \<^verbatim>\<open>datetime.strptime(time_str, "%H:%M").time()\<close>\<close>

definition is_digit :: "char \<Rightarrow> bool" where
  "is_digit ch = (48 \<le> (of_char ch :: nat) \<and> (of_char ch :: nat) \<le> 57)"

definition digit_val :: "char \<Rightarrow> nat" where
  "digit_val ch = (of_char ch :: nat) - 48"

text \<open>
  A field of one or two decimal digits, as the directives \<^verbatim>\<open>%H\<close>, \<^verbatim>\<open>%M\<close> and \<^verbatim>\<open>%m\<close> of
  \<^verbatim>\<open>strptime\<close> read it; the range of the value is checked by the caller.
\<close>

definition num12 :: "string \<Rightarrow> nat option" where
  "num12 s =
     (case s of
        [a] \<Rightarrow> if is_digit a then Some (digit_val a) else None
      | [a, b] \<Rightarrow> if is_digit a \<and> is_digit b then Some (10 * digit_val a + digit_val b) else None
      | _ \<Rightarrow> None)"

text \<open>
  \<^verbatim>\<open>strptime\<close> with the format \<^verbatim>\<open>%H:%M\<close> matches
  \<^verbatim>\<open>(2[0-3]|[0-1]\d|\d):([0-5]\d|\d)\<close> and raises \<^verbatim>\<open>ValueError\<close> when the string does not
  match or when text remains after the match: the string is an hour field of one or two
  digits up to 23, a colon, and a minute field of one or two digits up to 59.
\<close>

definition str_to_time :: "string \<Rightarrow> error + time" where
  "str_to_time time_str =
     (case dropWhile (\<lambda>ch. ch \<noteq> CHR '':'') time_str of
        [] \<Rightarrow> Inl ValueError
      | _ # mm \<Rightarrow>
          (case (num12 (takeWhile (\<lambda>ch. ch \<noteq> CHR '':'') time_str), num12 mm) of
             (Some h, Some m) \<Rightarrow> if h \<le> 23 \<and> m \<le> 59 then Inr (h, m, 0, 0) else Inl ValueError
           | _ \<Rightarrow> Inl ValueError))"

subsection \<open>\<^verbatim>\<open>time_in_between\<close>\<close>

definition time_in_between :: "time \<Rightarrow> time \<Rightarrow> time \<Rightarrow> bool" where
  "time_in_between now start end_at =
     (if start \<le> end_at then start \<le> now \<and> now < end_at
      else start \<le> now \<or> now < end_at)"


section \<open>Strings\<close>

text \<open>
  A Python \<^verbatim>\<open>str\<close> is a list of characters. \<^verbatim>\<open>str.strip()\<close> removes leading and trailing
  white space; on 8-bit characters these are the codes 9 to 13, 28 to 32, 133 and 160.
\<close>

definition is_space :: "char \<Rightarrow> bool" where
  "is_space ch =
     (let n = (of_char ch :: nat) in (9 \<le> n \<and> n \<le> 13) \<or> (28 \<le> n \<and> n \<le> 32) \<or> n = 133 \<or> n = 160)"

definition strip :: "string \<Rightarrow> string" where
  "strip s = rev (dropWhile is_space (rev (dropWhile is_space s)))"

text \<open>\<^verbatim>\<open>s.split(sep)\<close> for a separator of one character: never an empty list.\<close>

fun split_on :: "char \<Rightarrow> string \<Rightarrow> string list" where
  "split_on sep [] = [[]]"
| "split_on sep (ch # s) =
     (if ch = sep then [] # split_on sep s
      else (case split_on sep s of [] \<Rightarrow> [[ch]] | p # ps \<Rightarrow> (ch # p) # ps))"

text \<open>\<^verbatim>\<open>value.replace(",", ".")\<close>.\<close>

definition comma_to_dot :: "string \<Rightarrow> string" where
  "comma_to_dot s = map (\<lambda>ch. if ch = CHR '','' then CHR ''.'' else ch) s"

section \<open>Dates\<close>

definition is_leap :: "nat \<Rightarrow> bool" where
  "is_leap y = (y mod 4 = 0 \<and> (y mod 100 \<noteq> 0 \<or> y mod 400 = 0))"

definition days_in_month :: "nat \<Rightarrow> nat \<Rightarrow> nat" where
  "days_in_month y m =
     (if m = 2 then (if is_leap y then 29 else 28)
      else if m = 4 \<or> m = 6 \<or> m = 9 \<or> m = 11 then 30 else 31)"

text \<open>
  A field of four decimal digits, the directive \<^verbatim>\<open>%Y\<close> of \<^verbatim>\<open>strptime\<close>.
\<close>

definition num4 :: "string \<Rightarrow> nat option" where
  "num4 s =
     (case s of
        [a, b, c, d] \<Rightarrow>
          if is_digit a \<and> is_digit b \<and> is_digit c \<and> is_digit d
          then Some (1000 * digit_val a + 100 * digit_val b + 10 * digit_val c + digit_val d)
          else None
      | _ \<Rightarrow> None)"

text \<open>
  The directive \<^verbatim>\<open>%d\<close> matches \<^verbatim>\<open>3[0-1]|[1-2]\d|0[1-9]|[1-9]| [1-9]\<close>: one or two digits
  from 1 to 31, or a blank and one digit.
\<close>

definition day_field :: "string \<Rightarrow> nat option" where
  "day_field s =
     (case s of
        [a, b] \<Rightarrow> if a = CHR '' '' then num12 [b] else num12 s
      | _ \<Rightarrow> num12 s)"

subsection \<open>\<^verbatim>\<open>str_to_date\<close>: \<^verbatim>\<open>datetime.strptime(date_str, "%d/%m/%Y").date()\<close>\<close>

text \<open>
  The string is a day field, a slash, a month field (\<^verbatim>\<open>1[0-2]|0[1-9]|[1-9]\<close>), a slash and
  a year of four digits, with nothing after it; the date has to exist in the calendar
  (the year 0 does not). Everything else raises \<^verbatim>\<open>ValueError\<close>.
\<close>

definition str_to_date :: "string \<Rightarrow> error + date" where
  "str_to_date date_str =
     (case split_on CHR ''/'' date_str of
        [dd, mm, yyyy] \<Rightarrow>
          (case (day_field dd, num12 mm, num4 yyyy) of
             (Some d, Some m, Some y) \<Rightarrow>
               if 1 \<le> y \<and> 1 \<le> m \<and> m \<le> 12 \<and> 1 \<le> d \<and> d \<le> days_in_month y m
               then Inr (y, m, d) else Inl ValueError
           | _ \<Rightarrow> Inl ValueError)
      | _ \<Rightarrow> Inl ValueError)"

text \<open>
  \<^verbatim>\<open>today_date - timedelta(days=1)\<close> and \<^verbatim>\<open>today_date + timedelta(days=1)\<close>. Python's dates
  end at the years 1 and 9999, where this arithmetic raises \<^verbatim>\<open>OverflowError\<close>; the clock
  never is there, and the model has no such bound.
\<close>

fun yesterday_of :: "date \<Rightarrow> date" where
  "yesterday_of (y, m, d) =
     (if 1 < d then (y, m, d - 1)
      else if 1 < m then (y, m - 1, days_in_month y (m - 1))
      else (y - 1, 12, 31))"

fun tomorrow_of :: "date \<Rightarrow> date" where
  "tomorrow_of (y, m, d) =
     (if d < days_in_month y m then (y, m, d + 1)
      else if m < 12 then (y, m + 1, 1)
      else (y + 1, 1, 1))"

text \<open>
  \<^verbatim>\<open>date.toordinal()\<close>: the number of the day, counted from 1 January of the year 1. It
  gives the meaning of \<^verbatim>\<open>dt_util.now() - timedelta(days=n)\<close> in a comparison.
\<close>

definition days_before_year :: "nat \<Rightarrow> int" where
  "days_before_year y =
     (let p = int y - 1 in p * 365 + p div 4 - p div 100 + p div 400)"

definition days_before_month :: "nat \<Rightarrow> nat \<Rightarrow> int" where
  "days_before_month y m = int (sum_list (map (days_in_month y) [1 ..< m]))"

fun toordinal :: "date \<Rightarrow> int" where
  "toordinal (y, m, d) = days_before_year y + days_before_month y m + int d"

text \<open>
  \<^verbatim>\<open>target_date.strftime("%Y-%m-%d")\<close> and \<^verbatim>\<open>today_date.isoformat()\<close>: the year on four
  digits, the month and the day on two.
\<close>

definition digit_char :: "nat \<Rightarrow> char" where
  "digit_char n = char_of (48 + n mod 10)"

definition pad2 :: "nat \<Rightarrow> string" where
  "pad2 n = [digit_char (n div 10), digit_char n]"

definition pad4 :: "nat \<Rightarrow> string" where
  "pad4 n = [digit_char (n div 1000), digit_char (n div 100), digit_char (n div 10), digit_char n]"

fun isoformat :: "date \<Rightarrow> string" where
  "isoformat (y, m, d) = pad4 y @ ''-'' @ pad2 m @ ''-'' @ pad2 d"

section \<open>Values, constants and the outside world\<close>

text \<open>
  The values of the Tempo API's JSON objects. \<^verbatim>\<open>codeJour\<close> is read with \<^verbatim>\<open>==\<close>, \<^verbatim>\<open>in\<close> and as
  a dictionary key, where Python takes \<^verbatim>\<open>True\<close> for 1 and \<^verbatim>\<open>False\<close> for 0; numbers with a
  fraction, arrays and objects as field values are outside the model.
\<close>

datatype json = JNull | JBool bool | JInt int | JStr string

type_synonym jdict = "string \<rightharpoonup> json"

text \<open>What \<^verbatim>\<open>response.json()\<close> returns: a dict, or any other JSON value.\<close>

datatype body = NotDict | Dict jdict

text \<open>
  The values kept in \<^verbatim>\<open>self.data\<close>. The type \<open>'f\<close> stands for Python's \<^verbatim>\<open>float\<close>; its
  operations are parameters (\<open>pyfloat\<close>), so nothing depends on floating-point rounding.
\<close>

datatype 'f pyval = PNone | PStr string | PBool bool | PFloat 'f | PDatetime datetime

type_synonym 'f pydict = "string \<rightharpoonup> 'f pyval"

record 'f pyfloat =
  float_of_str :: "string \<Rightarrow> 'f option"
  float_zero :: 'f
  float_div12 :: "'f \<Rightarrow> 'f"

text \<open>
  A row of \<^verbatim>\<open>csv.DictReader\<close>: every column of the header is a key; the value is the text of
  the cell, or Python's \<^verbatim>\<open>None\<close> (here \<open>None\<close> under \<open>Some\<close>) when the line is shorter than
  the header.
\<close>

type_synonym row = "string \<rightharpoonup> string option"

text \<open>
  The module \<^verbatim>\<open>const.py\<close> is not among the sources: its constants are parameters of the
  model, under the names the coordinator imports them by. \<open>TEMPO_COLORS_MAPPING\<close> is a dict
  from colour codes to colour names, given by its items in order.
\<close>

record const =
  DEFAULT_REFRESH_INTERVAL :: int
  CONTRACT_TYPE_BASE :: string
  CONTRACT_TYPE_HPHC :: string
  CONTRACT_TYPE_TEMPO :: string
  TARIF_BASE_URL :: string
  TARIF_HPHC_URL :: string
  TARIF_TEMPO_URL :: string
  TEMPO_COLOR_API_URL :: string
  TEMPO_COLORS_MAPPING :: "(int \<times> string) list"
  TEMPO_DAY_START_AT :: string
  TEMPO_TOMRROW_AVAILABLE_AT :: string
  TEMPO_OFFPEAK_HOURS :: string

text \<open>
  The outcome of \<^verbatim>\<open>_async_fetch_url\<close>: the body, an \<^verbatim>\<open>aiohttp.ClientError\<close> (which a status
  that is not 2xx raises too), or any other exception (the 30 second timeout among them).
\<close>

datatype 'a fetched = Fetched 'a | ClientError | OtherException

text \<open>
  The world of one refresh cycle. \<open>clock\<close> is \<^verbatim>\<open>dt_util.now()\<close>: the cycle reads the clock
  several times, the model once. \<open>fetch_table\<close> is the tariff table behind a URL, as the
  rows that \<^verbatim>\<open>content.decode("utf-8").splitlines()\<close> and \<^verbatim>\<open>csv.DictReader(\<dots>, delimiter=";")\<close>
  make of the body; a body that does not decode counts as \<open>OtherException\<close>, which is how
  the caller of \<^verbatim>\<open>_parse_tariff_csv\<close> treats it. \<open>fetch_json\<close> is the Tempo API.
\<close>

record world =
  clock :: datetime
  fetch_table :: "string \<Rightarrow> row list fetched"
  fetch_json :: "string \<Rightarrow> body fetched"

text \<open>
  \<^verbatim>\<open>config_entry.data\<close> and \<^verbatim>\<open>config_entry.options\<close>; an option is \<open>None\<close> when its key is
  absent.
\<close>

record config_entry =
  contract_type :: string
  contract_power :: string
  refresh_interval :: "int option"
  off_peak_hours_ranges :: "string option"

text \<open>
  The fields of \<^verbatim>\<open>TarifEdfDataUpdateCoordinator\<close>. \<open>data\<close> is \<open>None\<close> until the first cycle.
  \<open>requests\<close> is not a field of the class: it records the URLs handed to
  \<^verbatim>\<open>_async_fetch_url\<close>, oldest first, so that a fetch is visible in the state.
\<close>

record 'f coordinator =
  data :: "'f pydict option"
  tempo_prices :: "jdict list"
  previous_demain_color :: "string option"
  previous_demain_date :: "date option"
  requests :: "string list"

text \<open>\<^verbatim>\<open>__init__\<close>.\<close>

definition init :: "'f coordinator" where
  "init = \<lparr> data = None, tempo_prices = [], previous_demain_color = None,
            previous_demain_date = None, requests = [] \<rparr>"

text \<open>The colour name of an unknown day: \<^verbatim>\<open>"ind\<close>e\<^verbatim>\<open>termin\<close>e\<^verbatim>\<open>"\<close>, with e acute (code 233).\<close>

definition indetermine :: string where
  "indetermine = ''ind'' @ [char_of (233 :: nat)] @ ''termin'' @ [char_of (233 :: nat)]"

text \<open>\<^verbatim>\<open>d.get(key, default)\<close> and \<^verbatim>\<open>d.get(key)\<close>.\<close>

definition get_or :: "('k \<rightharpoonup> 'v) \<Rightarrow> 'k \<Rightarrow> 'v \<Rightarrow> 'v" where
  "get_or d k dflt = (case d k of None \<Rightarrow> dflt | Some v \<Rightarrow> v)"

definition get :: "'f pydict \<Rightarrow> string \<Rightarrow> 'f pyval" where
  "get d k = get_or d k PNone"

text \<open>
  The integer that a JSON value is equal to in Python, if any: \<^verbatim>\<open>code == 0\<close>,
  \<^verbatim>\<open>code in [1, 2, 3]\<close> and \<^verbatim>\<open>TEMPO_COLORS_MAPPING.get(code, \<dots>)\<close> see a code through it.
\<close>

fun as_int :: "json \<Rightarrow> int option" where
  "as_int (JInt n) = Some n"
| "as_int (JBool b) = Some (if b then 1 else 0)"
| "as_int JNull = None"
| "as_int (JStr s) = None"

definition in_1_2_3 :: "json \<Rightarrow> bool" where
  "in_1_2_3 code = (as_int code = Some 1 \<or> as_int code = Some 2 \<or> as_int code = Some 3)"

subsection \<open>\<^verbatim>\<open>get_tempo_color_from_code\<close> and \<^verbatim>\<open>_get_color_code_from_name\<close>\<close>

definition get_tempo_color_from_code :: "const \<Rightarrow> json \<Rightarrow> string" where
  "get_tempo_color_from_code c code =
     (case as_int code of
        None \<Rightarrow> indetermine
      | Some n \<Rightarrow> get_or (map_of (TEMPO_COLORS_MAPPING c)) n indetermine)"

fun find_code :: "(int \<times> string) list \<Rightarrow> 'f pyval \<Rightarrow> int" where
  "find_code [] color_name = 0"
| "find_code ((code, name) # items) color_name =
     (if PStr name = color_name then code else find_code items color_name)"

definition get_color_code_from_name :: "const \<Rightarrow> 'f pyval \<Rightarrow> int" where
  "get_color_code_from_name c color_name = find_code (TEMPO_COLORS_MAPPING c) color_name"

section \<open>\<^verbatim>\<open>get_tempo_day\<close>\<close>

text \<open>
  The loop over \<^verbatim>\<open>self.tempo_prices\<close> (lines 107 to 112): the first cached record of the
  date whose code is 1, 2 or 3, or 0 while the clock is before \<open>check_limit\<close>.
\<close>

fun cached_day :: "string \<Rightarrow> time \<Rightarrow> time \<Rightarrow> jdict list \<Rightarrow> jdict option" where
  "cached_day date_str now_t check_limit [] = None"
| "cached_day date_str now_t check_limit (price # prices) =
     (let code_jour = get_or price ''codeJour'' (JInt 0) in
      if price ''dateJour'' = Some (JStr date_str) \<and>
         (in_1_2_3 code_jour \<or> (as_int code_jour = Some 0 \<and> now_t < check_limit))
      then Some price
      else cached_day date_str now_t check_limit prices)"

text \<open>The record \<^verbatim>\<open>{"dateJour": date_str, "codeJour": 0}\<close>.\<close>

definition unknown_day :: "string \<Rightarrow> jdict" where
  "unknown_day date_str = [''dateJour'' \<mapsto> JStr date_str, ''codeJour'' \<mapsto> JInt 0]"

text \<open>Lines 119 to 133: the response is validated and its \<^verbatim>\<open>dateJour\<close> is set.\<close>

definition validate_response :: "string \<Rightarrow> body \<Rightarrow> jdict" where
  "validate_response date_str response_json =
     (let checked =
        (case response_json of
           NotDict \<Rightarrow> unknown_day date_str
         | Dict r \<Rightarrow> if r ''codeJour'' = None then unknown_day date_str else r)
      in if checked ''dateJour'' = None then checked(''dateJour'' \<mapsto> JStr date_str) else checked)"

definition get_tempo_day ::
  "const \<Rightarrow> world \<Rightarrow> date \<Rightarrow> 'f coordinator \<Rightarrow> error + (jdict \<times> 'f coordinator)" where
  "get_tempo_day c w target_date s =
     (let date_str = isoformat target_date in
      case str_to_time (TEMPO_TOMRROW_AVAILABLE_AT c) of
        Inl e \<Rightarrow> Inl e
      | Inr check_limit \<Rightarrow>
          (case cached_day date_str (snd (clock w)) check_limit (tempo_prices s) of
             Some price \<Rightarrow> Inr (price, s)
           | None \<Rightarrow>
               (let url = TEMPO_COLOR_API_URL c @ ''/'' @ date_str;
                    s1 = s\<lparr>requests := requests s @ [url]\<rparr>
                in case fetch_json w url of
                     Fetched response_json \<Rightarrow>
                       (let r = validate_response date_str response_json
                        in Inr (r, s1\<lparr>tempo_prices := tempo_prices s1 @ [r]\<rparr>))
                   | ClientError \<Rightarrow> Inr (unknown_day date_str, s1)
                   | OtherException \<Rightarrow> Inr (unknown_day date_str, s1))))"

section \<open>\<^verbatim>\<open>_parse_tariff_csv\<close>\<close>

text \<open>\<^verbatim>\<open>cell.strip()\<close>, which raises \<^verbatim>\<open>AttributeError\<close> on \<^verbatim>\<open>None\<close>.\<close>

definition cell_strip :: "string option \<Rightarrow> error + string" where
  "cell_strip cell = (case cell of None \<Rightarrow> Inl AttributeError | Some s \<Rightarrow> Inr (strip s))"

text \<open>
  The body of the loop over the rows, lines 162 to 193, up to the choice of the best
  row: \<open>Inr None\<close> when the row is passed over (by \<^verbatim>\<open>continue\<close>, or by the \<^verbatim>\<open>ValueError\<close> of
  \<^verbatim>\<open>str_to_date\<close> that the loop catches), \<open>Inr (Some start_date)\<close> when the row reaches line
  187, \<open>Inl\<close> for the exception that the loop does not catch.
\<close>

definition examine_row :: "date \<Rightarrow> string \<Rightarrow> row \<Rightarrow> error + date option" where
  "examine_row today wanted r =
     (case cell_strip (get_or r ''DATE_DEBUT'' (Some [])) of
        Inl e \<Rightarrow> Inl e
      | Inr date_debut \<Rightarrow>
     (case cell_strip (get_or r ''P_SOUSCRITE'' (get_or r ''PUISSANCE'' (Some []))) of
        Inl e \<Rightarrow> Inl e
      | Inr puissance \<Rightarrow>
          if date_debut = [] \<or> puissance \<noteq> wanted then Inr None
          else
            (case str_to_date date_debut of
               Inl e \<Rightarrow> Inr None
             | Inr start_date \<Rightarrow>
                 if start_date > today then Inr None
                 else
                   (case cell_strip (get_or r ''DATE_FIN'' (Some [])) of
                      Inl e \<Rightarrow> Inl e
                    | Inr date_fin \<Rightarrow>
                        if date_fin \<noteq> [] then
                          (case str_to_date date_fin of
                             Inl e \<Rightarrow> Inr None
                           | Inr end_date \<Rightarrow>
                               if end_date < today then Inr None else Inr (Some start_date))
                        else Inr (Some start_date)))))"

text \<open>
  The loop: \<open>best\<close> is the pair of \<^verbatim>\<open>best_date\<close> and \<^verbatim>\<open>best_match\<close>, which are set together.
\<close>

fun scan_rows :: "date \<Rightarrow> string \<Rightarrow> (date \<times> row) option \<Rightarrow> row list \<Rightarrow> error + (date \<times> row) option" where
  "scan_rows today wanted best [] = Inr best"
| "scan_rows today wanted best (r # rows) =
     (case examine_row today wanted r of
        Inl e \<Rightarrow> Inl e
      | Inr None \<Rightarrow> scan_rows today wanted best rows
      | Inr (Some start_date) \<Rightarrow>
          scan_rows today wanted
            (case best of
               None \<Rightarrow> Some (start_date, r)
             | Some (best_date, best_match) \<Rightarrow>
                 if start_date > best_date then Some (start_date, r) else best)
            rows)"

text \<open>\<^verbatim>\<open>parse_price\<close>, on a cell that may be \<^verbatim>\<open>None\<close>.\<close>

definition parse_price :: "'f pyfloat \<Rightarrow> string option \<Rightarrow> error + 'f" where
  "parse_price fl v =
     (case v of
        None \<Rightarrow> Inr (float_zero fl)
      | Some s \<Rightarrow>
          if s = [] then Inr (float_zero fl)
          else (case float_of_str fl (comma_to_dot s) of
                  None \<Rightarrow> Inl ValueError
                | Some x \<Rightarrow> Inr x))"

text \<open>
  The assignments \<^verbatim>\<open>result[key] = parse_price(best_match.get(column, "0"))\<close>, in order; the
  first \<^verbatim>\<open>ValueError\<close> ends them.
\<close>

fun parse_prices :: "'f pyfloat \<Rightarrow> row \<Rightarrow> (string \<times> string) list \<Rightarrow> error + (string \<times> 'f pyval) list" where
  "parse_prices fl r [] = Inr []"
| "parse_prices fl r ((key, column) # others) =
     (case parse_price fl (get_or r column (Some ''0'')) of
        Inl e \<Rightarrow> Inl e
      | Inr x \<Rightarrow>
          (case parse_prices fl r others of
             Inl e \<Rightarrow> Inl e
           | Inr result \<Rightarrow> Inr ((key, PFloat x) # result)))"

text \<open>
  Lines 207 to 249, for one contract type: the fixed part, the variable parts, and the
  monthly subscription, a twelfth of the fixed part.
\<close>

definition rates_of ::
  "'f pyfloat \<Rightarrow> row \<Rightarrow> string \<Rightarrow> (string \<times> string) list \<Rightarrow> error + (string \<times> 'f pyval) list" where
  "rates_of fl r prefix variables =
     (case parse_price fl (get_or r ''PART_FIXE_TTC'' (Some ''0'')) of
        Inl e \<Rightarrow> Inl e
      | Inr fixe \<Rightarrow>
          (case parse_prices fl r variables of
             Inl e \<Rightarrow> Inl e
           | Inr result \<Rightarrow>
               Inr ((prefix @ ''_fixe_ttc'', PFloat fixe) # result @
                    [(prefix @ ''_abonnement_ttc'', PFloat (float_div12 fl fixe))])))"

definition extract_rates ::
  "const \<Rightarrow> 'f pyfloat \<Rightarrow> string \<Rightarrow> row \<Rightarrow> error + (string \<times> 'f pyval) list" where
  "extract_rates c fl ctype best_match =
     (if ctype = CONTRACT_TYPE_BASE c then
        rates_of fl best_match ''base'' [(''base_variable_ttc'', ''PART_VARIABLE_TTC'')]
      else if ctype = CONTRACT_TYPE_HPHC c then
        rates_of fl best_match ''hphc''
          [(''hphc_variable_hc_ttc'', ''PART_VARIABLE_HC_TTC''),
           (''hphc_variable_hp_ttc'', ''PART_VARIABLE_HP_TTC'')]
      else if ctype = CONTRACT_TYPE_TEMPO c then
        rates_of fl best_match ''tempo''
          [(''tempo_variable_hc_bleu_ttc'', ''PART_VARIABLE_HCBleu_TTC''),
           (''tempo_variable_hp_bleu_ttc'', ''PART_VARIABLE_HPBleu_TTC''),
           (''tempo_variable_hc_blanc_ttc'', ''PART_VARIABLE_HCBlanc_TTC''),
           (''tempo_variable_hp_blanc_ttc'', ''PART_VARIABLE_HPBlanc_TTC''),
           (''tempo_variable_hc_rouge_ttc'', ''PART_VARIABLE_HCRouge_TTC''),
           (''tempo_variable_hp_rouge_ttc'', ''PART_VARIABLE_HPRouge_TTC'')]
      else Inr [])"

text \<open>
  \<^verbatim>\<open>_parse_tariff_csv\<close> on the rows of the table: \<open>Inr None\<close> is the \<^verbatim>\<open>return None\<close> of line
  196. \<open>today\<close> is \<^verbatim>\<open>dt_util.now().date()\<close>.
\<close>

definition parse_tariff_csv ::
  "const \<Rightarrow> 'f pyfloat \<Rightarrow> date \<Rightarrow> row list \<Rightarrow> string \<Rightarrow> string \<Rightarrow>
   error + (string \<times> 'f pyval) list option" where
  "parse_tariff_csv c fl today rows wanted ctype =
     (case scan_rows today wanted None rows of
        Inl e \<Rightarrow> Inl e
      | Inr None \<Rightarrow> Inr None
      | Inr (Some (best_date, best_match)) \<Rightarrow>
          (case extract_rates c fl ctype best_match of
             Inl e \<Rightarrow> Inl e
           | Inr result \<Rightarrow> Inr (Some result)))"

section \<open>\<^verbatim>\<open>_async_update_data\<close>\<close>

text \<open>
  The cycle is one Python function; the model cuts it at its comments into the refresh
  of the table (lines 272 to 313), the Tempo colours (lines 315 to 412) and the current
  tariff (lines 414 to 460). Each part works on the dict \<open>d\<close> that \<^verbatim>\<open>self.data\<close> refers to
  and on the other fields of the coordinator.
\<close>

text \<open>Lines 264 to 270: the dict of the first cycle.\<close>

definition initial_data :: "config_entry \<Rightarrow> 'f pydict" where
  "initial_data entry =
     [''contract_power'' \<mapsto> PStr (contract_power entry),
      ''contract_type'' \<mapsto> PStr (contract_type entry),
      ''last_refresh_at'' \<mapsto> PNone,
      ''tarif_actuel_ttc'' \<mapsto> PNone]"

text \<open>\<^verbatim>\<open>d.update(items)\<close> and \<^verbatim>\<open>d.setdefault(key, value)\<close>.\<close>

fun dict_update :: "'f pydict \<Rightarrow> (string \<times> 'f pyval) list \<Rightarrow> 'f pydict" where
  "dict_update d [] = d"
| "dict_update d ((k, v) # items) = dict_update (d(k \<mapsto> v)) items"

definition setdefault :: "'f pydict \<Rightarrow> string \<Rightarrow> 'f pyval \<Rightarrow> 'f pydict" where
  "setdefault d k v = (if d k = None then d(k \<mapsto> v) else d)"

subsection \<open>The refresh of the tariff table\<close>

text \<open>
  Lines 272 to 274: \<^verbatim>\<open>self.config_entry.options.get("refresh_interval", DEFAULT_REFRESH_INTERVAL)\<close>.
\<close>

definition refresh_interval_of :: "const \<Rightarrow> config_entry \<Rightarrow> int" where
  "refresh_interval_of c entry =
     (case refresh_interval entry of None \<Rightarrow> DEFAULT_REFRESH_INTERVAL c | Some n \<Rightarrow> n)"

text \<open>
  Line 275, \<^verbatim>\<open>dt_util.now() - timedelta(days=refresh_interval)\<close>. Python raises
  \<^verbatim>\<open>OverflowError\<close> in \<^verbatim>\<open>timedelta(days=n)\<close> when \<open>n\<close> is beyond 999999999 in magnitude, and in
  the subtraction when the result is not a date of the years 1 to 9999, whose ordinals are
  1 to 3652059. The result is \<open>n\<close> days before \<open>now\<close>, at the time of \<open>now\<close>; it is kept as
  the ordinal of its date and its time, which is how two datetimes of the same time zone
  compare.
\<close>

definition days_in_range :: "datetime \<Rightarrow> int \<Rightarrow> bool" where
  "days_in_range now_dt n =
     (- 999999999 \<le> n \<and> n \<le> 999999999 \<and>
      1 \<le> toordinal (fst now_dt) - n \<and> toordinal (fst now_dt) - n \<le> 3652059)"

definition fresh_data_limit :: "datetime \<Rightarrow> int \<Rightarrow> error + (int \<times> time)" where
  "fresh_data_limit now_dt n =
     (if days_in_range now_dt n then Inr (toordinal (fst now_dt) - n, snd now_dt)
      else Inl OverflowError)"

text \<open>
  Lines 272 to 279. The limit is computed first, whatever the dict holds. Comparing
  anything but a datetime with \<^verbatim>\<open>fresh_data_limit\<close> raises \<^verbatim>\<open>TypeError\<close>.
\<close>

definition tarif_needs_update :: "const \<Rightarrow> world \<Rightarrow> config_entry \<Rightarrow> 'f pydict \<Rightarrow> error + bool" where
  "tarif_needs_update c w entry d =
     (case fresh_data_limit (clock w) (refresh_interval_of c entry) of
        Inl e \<Rightarrow> Inl e
      | Inr limit \<Rightarrow>
          (case get d ''last_refresh_at'' of
             PNone \<Rightarrow> Inr True
           | PDatetime stamp \<Rightarrow> Inr ((toordinal (fst stamp), snd stamp) < limit)
           | _ \<Rightarrow> Inl TypeError))"

text \<open>Lines 287 to 294.\<close>

definition tariff_url :: "const \<Rightarrow> string \<Rightarrow> error + string" where
  "tariff_url c ctype =
     (if ctype = CONTRACT_TYPE_BASE c then Inr (TARIF_BASE_URL c)
      else if ctype = CONTRACT_TYPE_HPHC c then Inr (TARIF_HPHC_URL c)
      else if ctype = CONTRACT_TYPE_TEMPO c then Inr (TARIF_TEMPO_URL c)
      else Inl UpdateFailed)"

text \<open>
  Lines 296 to 313. Every exception of the fetch and of \<^verbatim>\<open>_parse_tariff_csv\<close> becomes
  \<^verbatim>\<open>UpdateFailed\<close>. The result is the exception raised, if any, with the dict and the
  coordinator as they are then.
\<close>

definition fetch_tariff ::
  "const \<Rightarrow> 'f pyfloat \<Rightarrow> world \<Rightarrow> config_entry \<Rightarrow> string \<Rightarrow> 'f pydict \<Rightarrow> 'f coordinator \<Rightarrow>
   error option \<times> 'f pydict \<times> 'f coordinator" where
  "fetch_tariff c fl w entry url d s =
     (let s1 = s\<lparr>requests := requests s @ [url]\<rparr> in
      case fetch_table w url of
        ClientError \<Rightarrow> (Some UpdateFailed, d, s1)
      | OtherException \<Rightarrow> (Some UpdateFailed, d, s1)
      | Fetched content \<Rightarrow>
          (case parse_tariff_csv c fl (fst (clock w)) content (contract_power entry)
                  (contract_type entry) of
             Inl e \<Rightarrow> (Some UpdateFailed, d, s1)
           | Inr None \<Rightarrow> (None, d, s1)
           | Inr (Some rates) \<Rightarrow>
               if rates = [] then (None, d, s1)
               else (None, (dict_update d rates)(''last_refresh_at'' \<mapsto> PDatetime (clock w)), s1)))"

definition refresh_tariff ::
  "const \<Rightarrow> 'f pyfloat \<Rightarrow> world \<Rightarrow> config_entry \<Rightarrow> 'f pydict \<Rightarrow> 'f coordinator \<Rightarrow>
   error option \<times> 'f pydict \<times> 'f coordinator" where
  "refresh_tariff c fl w entry d s =
     (case tarif_needs_update c w entry d of
        Inl e \<Rightarrow> (Some e, d, s)
      | Inr False \<Rightarrow> (None, d, s)
      | Inr True \<Rightarrow>
          (case tariff_url c (contract_type entry) of
             Inl e \<Rightarrow> (Some e, d, s)
           | Inr url \<Rightarrow> fetch_tariff c fl w entry url d s))"

subsection \<open>The Tempo colours\<close>

text \<open>The Python value of a field of type \<^verbatim>\<open>str | None\<close>.\<close>

definition opt_str :: "string option \<Rightarrow> 'f pyval" where
  "opt_str v = (case v of None \<Rightarrow> PNone | Some t \<Rightarrow> PStr t)"

text \<open>Lines 340 to 361: today's colour, after the two fallbacks.\<close>

definition resolve_today_color :: "'f pydict \<Rightarrow> 'f coordinator \<Rightarrow> date \<Rightarrow> string \<Rightarrow> 'f pyval" where
  "resolve_today_color d s today_date today_color =
     (if today_color = indetermine then
        (if previous_demain_date s = Some today_date \<and>
            previous_demain_color s \<noteq> None \<and>
            previous_demain_color s \<noteq> Some indetermine
         then opt_str (previous_demain_color s)
         else if get d ''_fallback_today_color'' \<noteq> PNone \<and>
                 get d ''_fallback_today_date'' = PStr (isoformat today_date)
         then get d ''_fallback_today_color''
         else PStr today_color)
      else PStr today_color)"

text \<open>Lines 367 to 372: tomorrow's colour is kept for the next day.\<close>

definition store_demain ::
  "string \<Rightarrow> date \<Rightarrow> 'f pydict \<Rightarrow> 'f coordinator \<Rightarrow> 'f pydict \<times> 'f coordinator" where
  "store_demain tomorrow_color tomorrow d s =
     (if tomorrow_color \<noteq> indetermine then
        (d(''_fallback_today_color'' \<mapsto> PStr tomorrow_color,
           ''_fallback_today_date'' \<mapsto> PStr (isoformat tomorrow)),
         s\<lparr>previous_demain_color := Some tomorrow_color, previous_demain_date := Some tomorrow\<rparr>)
      else (d, s))"

text \<open>Lines 385 to 402: the current colour and the rates of the day.\<close>

definition set_current_rates :: "const \<Rightarrow> json \<Rightarrow> 'f pydict \<Rightarrow> 'f pydict" where
  "set_current_rates c current_color_code d =
     (if in_1_2_3 current_color_code then
        (let color = get_tempo_color_from_code c current_color_code;
             d1 = d(''tempo_couleur'' \<mapsto> PStr color);
             hp_key = ''tempo_variable_hp_'' @ color @ ''_ttc'';
             hc_key = ''tempo_variable_hc_'' @ color @ ''_ttc''
         in case (d1 hp_key, d1 hc_key) of
              (Some hp, Some hc0) \<Rightarrow>
                (let d2 = d1(''tempo_variable_hp_ttc'' \<mapsto> hp)
                 in case d2 hc_key of
                      Some hc \<Rightarrow> d2(''tempo_variable_hc_ttc'' \<mapsto> hc)
                    | None \<Rightarrow> d2)
            | _ \<Rightarrow> d1)
      else
        (let d1 = d(''tempo_couleur'' \<mapsto> PStr indetermine);
             d2 = setdefault d1 ''tempo_variable_hp_ttc'' PNone
         in setdefault d2 ''tempo_variable_hc_ttc'' PNone))"

text \<open>Lines 404 to 412: the defaults after an exception in the Tempo part.\<close>

definition tempo_defaults :: "'f pydict \<Rightarrow> 'f pydict" where
  "tempo_defaults d =
     setdefault (setdefault (setdefault (setdefault (setdefault (setdefault d
       ''tempo_couleur'' (PStr indetermine))
       ''tempo_couleur_hier'' (PStr indetermine))
       ''tempo_couleur_aujourdhui'' (PStr indetermine))
       ''tempo_couleur_demain'' (PStr indetermine))
       ''tempo_variable_hp_ttc'' PNone)
       ''tempo_variable_hc_ttc'' PNone"

text \<open>
  Lines 326 to 402, once the three days are there: the colours of the three days, the
  fallbacks, and the rates of the current colour.
\<close>

definition apply_colors ::
  "const \<Rightarrow> world \<Rightarrow> jdict \<Rightarrow> jdict \<Rightarrow> jdict \<Rightarrow> 'f pydict \<Rightarrow> 'f coordinator \<Rightarrow>
   'f pydict \<times> 'f coordinator" where
  "apply_colors c w tempo_yesterday tempo_today tempo_tomorrow d s =
     (let today_date = fst (clock w);
          tomorrow = tomorrow_of today_date;
          yesterday_color = get_tempo_color_from_code c (get_or tempo_yesterday ''codeJour'' (JInt 0));
          today_color0 = get_tempo_color_from_code c (get_or tempo_today ''codeJour'' (JInt 0));
          tomorrow_color = get_tempo_color_from_code c (get_or tempo_tomorrow ''codeJour'' (JInt 0));
          d1 = d(''tempo_couleur_hier'' \<mapsto> PStr yesterday_color,
                 ''tempo_couleur_demain'' \<mapsto> PStr tomorrow_color);
          today_color = resolve_today_color d1 s today_date today_color0;
          d2 = d1(''tempo_couleur_aujourdhui'' \<mapsto> today_color);
          (d3, s3) = store_demain tomorrow_color tomorrow d2 s
      in case str_to_time (TEMPO_DAY_START_AT c) of
           Inl e \<Rightarrow> (tempo_defaults d3, s3)
         | Inr day_start \<Rightarrow>
             (let current_color_code =
                (if snd (clock w) \<ge> day_start
                 then JInt (get_color_code_from_name c today_color)
                 else get_or tempo_yesterday ''codeJour'' (JInt 0))
              in (set_current_rates c current_color_code d3, s3)))"

text \<open>Lines 316 to 412, for a Tempo contract.\<close>

definition handle_tempo ::
  "const \<Rightarrow> world \<Rightarrow> 'f pydict \<Rightarrow> 'f coordinator \<Rightarrow> 'f pydict \<times> 'f coordinator" where
  "handle_tempo c w d s =
     (let today_date = fst (clock w);
          yesterday = yesterday_of today_date;
          tomorrow = tomorrow_of today_date
      in case get_tempo_day c w yesterday s of
           Inl e \<Rightarrow> (tempo_defaults d, s)
         | Inr (tempo_yesterday, s1) \<Rightarrow>
        (case get_tempo_day c w today_date s1 of
           Inl e \<Rightarrow> (tempo_defaults d, s1)
         | Inr (tempo_today, s2) \<Rightarrow>
        (case get_tempo_day c w tomorrow s2 of
           Inl e \<Rightarrow> (tempo_defaults d, s2)
         | Inr (tempo_tomorrow, s3) \<Rightarrow>
             apply_colors c w tempo_yesterday tempo_today tempo_tomorrow d s3)))"

subsection \<open>The current tariff\<close>

text \<open>
  The pattern of line 445,
  \<^verbatim>\<open>([0-1]?[0-9]|2[0-3]):[0-5][0-9]-([0-1]?[0-9]|2[0-3]):[0-5][0-9]\<close>, under \<^verbatim>\<open>re.match\<close>: the
  pattern has to match at the start of the string, and anything may follow the match.
  \<open>hour_re\<close> is the hour group on the text before a colon; \<open>clock_re\<close> matches one clock
  time at the start of a string and gives the rest of the string.
\<close>

definition hour_re :: "string \<Rightarrow> bool" where
  "hour_re h =
     (case h of
        [a] \<Rightarrow> is_digit a
      | [a, b] \<Rightarrow>
          ((a = CHR ''0'' \<or> a = CHR ''1'') \<and> is_digit b) \<or>
          (a = CHR ''2'' \<and> (b = CHR ''0'' \<or> b = CHR ''1'' \<or> b = CHR ''2'' \<or> b = CHR ''3''))
      | _ \<Rightarrow> False)"

definition clock_re :: "string \<Rightarrow> string option" where
  "clock_re t =
     (case dropWhile (\<lambda>ch. ch \<noteq> CHR '':'') t of
        _ # a # b # rest \<Rightarrow>
          if hour_re (takeWhile (\<lambda>ch. ch \<noteq> CHR '':'') t) \<and>
             is_digit a \<and> digit_val a \<le> 5 \<and> is_digit b
          then Some rest else None
      | _ \<Rightarrow> None)"

definition range_re :: "string \<Rightarrow> bool" where
  "range_re t =
     (case clock_re t of
        Some (ch # rest) \<Rightarrow> ch = CHR ''-'' \<and> clock_re rest \<noteq> None
      | _ \<Rightarrow> False)"

text \<open>
  Lines 443 to 452, one entry of the schedule: \<open>None\<close> when the entry does not match the
  pattern (\<^verbatim>\<open>continue\<close>), otherwise the two clock times that \<^verbatim>\<open>str_to_time\<close> reads from
  \<^verbatim>\<open>hours[0]\<close> and \<^verbatim>\<open>hours[1]\<close>, or the exception it raises.
\<close>

definition parse_range :: "string \<Rightarrow> (error + time \<times> time) option" where
  "parse_range entry =
     (let time_range = strip entry in
      if \<not> range_re time_range then None
      else
        Some (case split_on CHR ''-'' time_range of
                h0 # h1 # _ \<Rightarrow>
                  (case str_to_time h0 of
                     Inl e \<Rightarrow> Inl e
                   | Inr start_at \<Rightarrow>
                       (case str_to_time h1 of
                          Inl e \<Rightarrow> Inl e
                        | Inr end_at \<Rightarrow> Inr (start_at, end_at)))
              | _ \<Rightarrow> Inl IndexError))"

text \<open>
  The loop of lines 442 to 457 over the entries of the schedule: \<open>Inr True\<close> when it
  leaves by \<^verbatim>\<open>break\<close>, \<open>Inr False\<close> when it runs to its end, \<open>Inl\<close> when \<^verbatim>\<open>str_to_time\<close> raises.
\<close>

fun scan_ranges :: "time \<Rightarrow> string list \<Rightarrow> error + bool" where
  "scan_ranges now_t [] = Inr False"
| "scan_ranges now_t (entry # entries) =
     (case parse_range entry of
        None \<Rightarrow> scan_ranges now_t entries
      | Some (Inl e) \<Rightarrow> Inl e
      | Some (Inr (start_at, end_at)) \<Rightarrow>
          if time_in_between now_t start_at end_at then Inr True
          else scan_ranges now_t entries)"

text \<open>Lines 414 to 460.\<close>

definition current_tariff :: "const \<Rightarrow> world \<Rightarrow> config_entry \<Rightarrow> 'f pydict \<Rightarrow> error + 'f pydict" where
  "current_tariff c w entry d =
     (let ctype = contract_type entry;
          default_offpeak_hours =
            (if ctype = CONTRACT_TYPE_TEMPO c then Some (TEMPO_OFFPEAK_HOURS c) else None);
          ranges = (case off_peak_hours_ranges entry of
                      None \<Rightarrow> default_offpeak_hours
                    | Some v \<Rightarrow> Some v)
      in if ctype = CONTRACT_TYPE_BASE c then
           Inr (d(''tarif_actuel_ttc'' \<mapsto> get d ''base_variable_ttc'',
                  ''is_off_peak'' \<mapsto> PBool False))
         else if ctype = CONTRACT_TYPE_HPHC c \<or> ctype = CONTRACT_TYPE_TEMPO c then
           (let contract_type_key = (if ctype = CONTRACT_TYPE_HPHC c then ''hphc'' else ''tempo'');
                hp_key = contract_type_key @ ''_variable_hp_ttc'';
                hc_key = contract_type_key @ ''_variable_hc_ttc''
            in case (case ranges of
                       None \<Rightarrow> Inr False
                     | Some v \<Rightarrow>
                         if v = [] then Inr False
                         else scan_ranges (snd (clock w)) (split_on CHR '','' v)) of
                 Inl e \<Rightarrow> Inl e
               | Inr is_off_peak \<Rightarrow>
                   Inr (d(''tarif_actuel_ttc'' \<mapsto> (if is_off_peak then get d hc_key else get d hp_key),
                          ''is_off_peak'' \<mapsto> PBool is_off_peak)))
         else Inr d)"

subsection \<open>The cycle\<close>

text \<open>
  \<^verbatim>\<open>_async_update_data\<close>: the exception raised, or the dict returned, with the coordinator
  after the cycle.
\<close>

definition async_update_data ::
  "const \<Rightarrow> 'f pyfloat \<Rightarrow> world \<Rightarrow> config_entry \<Rightarrow> 'f coordinator \<Rightarrow>
   (error + 'f pydict) \<times> 'f coordinator" where
  "async_update_data c fl w entry s =
     (let d0 = (case data s of None \<Rightarrow> initial_data entry | Some d \<Rightarrow> d) in
      case refresh_tariff c fl w entry d0 s of
        (Some e, d1, s1) \<Rightarrow> (Inl e, s1\<lparr>data := Some d1\<rparr>)
      | (None, d1, s1) \<Rightarrow>
          (let (d2, s2) = (if contract_type entry = CONTRACT_TYPE_TEMPO c
                           then handle_tempo c w d1 s1 else (d1, s1))
           in case current_tariff c w entry d2 of
                Inl e \<Rightarrow> (Inl e, s2\<lparr>data := Some d2\<rparr>)
              | Inr d3 \<Rightarrow> (Inr d3, s2\<lparr>data := Some d3\<rparr>)))"

section \<open>The statements in the words of the specification\<close>

subsection \<open>Tariff rows\<close>

text \<open>
  The text of a cell, without the white space around it; empty when the column is
  absent from the table.
\<close>

definition cell_text :: "string option option \<Rightarrow> string" where
  "cell_text v = (case v of Some (Some t) \<Rightarrow> strip t | _ \<Rightarrow> [])"

text \<open>The power field: read from \<^verbatim>\<open>P_SOUSCRITE\<close>, else from \<^verbatim>\<open>PUISSANCE\<close>.\<close>

definition power_field :: "row \<Rightarrow> string" where
  "power_field r =
     (if r ''P_SOUSCRITE'' \<noteq> None then cell_text (r ''P_SOUSCRITE'')
      else cell_text (r ''PUISSANCE''))"

definition start_date_of :: "row \<Rightarrow> date option" where
  "start_date_of r =
     (case str_to_date (cell_text (r ''DATE_DEBUT'')) of Inl e \<Rightarrow> None | Inr sd \<Rightarrow> Some sd)"

definition end_date_of :: "row \<Rightarrow> date option" where
  "end_date_of r =
     (case str_to_date (cell_text (r ''DATE_FIN'')) of Inl e \<Rightarrow> None | Inr ed \<Rightarrow> Some ed)"

text \<open>
  A candidate row: its start-date field is not empty, its power field is the target
  power, its start date is today or earlier, and its end date is absent, or today or
  later.
\<close>

definition is_candidate :: "date \<Rightarrow> string \<Rightarrow> row \<Rightarrow> bool" where
  "is_candidate today wanted r =
     (cell_text (r ''DATE_DEBUT'') \<noteq> [] \<and>
      power_field r = wanted \<and>
      (case start_date_of r of None \<Rightarrow> False | Some sd \<Rightarrow> sd \<le> today) \<and>
      (cell_text (r ''DATE_FIN'') = [] \<or>
       (case end_date_of r of None \<Rightarrow> False | Some ed \<Rightarrow> today \<le> ed)))"

text \<open>A row of a table whose lines all have as many cells as the header.\<close>

definition no_missing_cell :: "row \<Rightarrow> bool" where
  "no_missing_cell r = (\<forall>k. r k \<noteq> Some None)"

text \<open>
  The choice among the candidates: none when there is no candidate; otherwise the
  candidate of the latest start date, and among candidates of that date the first one
  in the order of the file.
\<close>

definition selects_first_latest ::
  "date \<Rightarrow> string \<Rightarrow> row list \<Rightarrow> (date \<times> row) option \<Rightarrow> bool" where
  "selects_first_latest today wanted rows res =
     (case res of
        None \<Rightarrow> (\<forall>r\<in>set rows. \<not> is_candidate today wanted r)
      | Some (sd, r) \<Rightarrow>
          (\<exists>pre post. rows = pre @ r # post \<and>
             is_candidate today wanted r \<and> start_date_of r = Some sd \<and>
             (\<forall>x\<in>set pre. \<forall>xd. is_candidate today wanted x \<longrightarrow>
                 start_date_of x = Some xd \<longrightarrow> xd < sd) \<and>
             (\<forall>x\<in>set post. \<forall>xd. is_candidate today wanted x \<longrightarrow>
                 start_date_of x = Some xd \<longrightarrow> xd \<le> sd)))"

subsection \<open>The freshness of the table\<close>

text \<open>
  A datetime is older than \<open>n\<close> days when it is before the present time of the day, \<open>n\<close>
  days ago.
\<close>

definition older_than :: "datetime \<Rightarrow> datetime \<Rightarrow> int \<Rightarrow> bool" where
  "older_than stamp now_dt n =
     ((toordinal (fst stamp), snd stamp) < (toordinal (fst now_dt) - n, snd now_dt))"

text \<open>
  A refresh is due when \<^verbatim>\<open>last_refresh_at\<close> is unset or older than the refresh interval; the
  table is fresh when \<^verbatim>\<open>last_refresh_at\<close> is a datetime that is not older than the interval.
\<close>

definition refresh_due :: "const \<Rightarrow> world \<Rightarrow> config_entry \<Rightarrow> 'f pydict \<Rightarrow> bool" where
  "refresh_due c w entry d =
     (case get d ''last_refresh_at'' of
        PNone \<Rightarrow> True
      | PDatetime stamp \<Rightarrow> older_than stamp (clock w) (refresh_interval_of c entry)
      | _ \<Rightarrow> False)"

definition table_fresh :: "const \<Rightarrow> world \<Rightarrow> config_entry \<Rightarrow> 'f pydict \<Rightarrow> bool" where
  "table_fresh c w entry d =
     (case get d ''last_refresh_at'' of
        PDatetime stamp \<Rightarrow> \<not> older_than stamp (clock w) (refresh_interval_of c entry)
      | _ \<Rightarrow> False)"

subsection \<open>The colour cache\<close>

text \<open>
  A cached record that answers a query for a date: it is a record of that date, and its
  code is 1, 2 or 3, or 0 while the clock is before the time at which tomorrow's colour
  is published.
\<close>

definition servable :: "string \<Rightarrow> time \<Rightarrow> time \<Rightarrow> jdict \<Rightarrow> bool" where
  "servable date_str now_t check_limit r =
     (r ''dateJour'' = Some (JStr date_str) \<and>
      (let code = as_int (get_or r ''codeJour'' (JInt 0))
       in code = Some 1 \<or> code = Some 2 \<or> code = Some 3 \<or>
          (code = Some 0 \<and> now_t < check_limit)))"

text \<open>The URL of line 115.\<close>

definition day_url :: "const \<Rightarrow> date \<Rightarrow> string" where
  "day_url c day = TEMPO_COLOR_API_URL c @ ''/'' @ isoformat day"

subsection \<open>Invariants of the coordinator\<close>

text \<open>
  \<^verbatim>\<open>_previous_demain_color\<close> and \<^verbatim>\<open>_previous_demain_date\<close> are set together, by lines 368
  and 369 only, and to the name of a known colour: a date is never there without one.
\<close>

definition fallback_inv :: "'f coordinator \<Rightarrow> bool" where
  "fallback_inv s =
     (previous_demain_date s \<noteq> None \<longrightarrow>
        previous_demain_color s \<noteq> None \<and> previous_demain_color s \<noteq> Some indetermine)"

text \<open>
  The six rates of the Tempo table come into the dict together (line 301), and the
  rates of the current colour are copies of two of them: a dict has the six of them, or
  none of them and then no rate of the current colour either.
\<close>

definition tempo_rate_keys :: "string list" where
  "tempo_rate_keys =
     [''tempo_variable_hc_bleu_ttc'', ''tempo_variable_hp_bleu_ttc'',
      ''tempo_variable_hc_blanc_ttc'', ''tempo_variable_hp_blanc_ttc'',
      ''tempo_variable_hc_rouge_ttc'', ''tempo_variable_hp_rouge_ttc'']"

definition rates_inv :: "'f pydict \<Rightarrow> bool" where
  "rates_inv d =
     ((\<forall>k\<in>set tempo_rate_keys. d k \<noteq> None) \<or>
      ((\<forall>k\<in>set tempo_rate_keys. d k = None) \<and>
       get d ''tempo_variable_hp_ttc'' = PNone \<and> get d ''tempo_variable_hc_ttc'' = PNone))"

definition coordinator_inv :: "'f coordinator \<Rightarrow> bool" where
  "coordinator_inv s =
     (fallback_inv s \<and> (case data s of None \<Rightarrow> True | Some d \<Rightarrow> rates_inv d))"

text \<open>
  Modelled from the spec: \<^verbatim>\<open>TEMPO_COLORS_MAPPING\<close> of \<^verbatim>\<open>const.py\<close>, which is not among the
  sources. The codes 1, 2 and 3 are blue, white and red; their names are the ones in the
  keys of the Tempo rates (\<^verbatim>\<open>tempo_variable_hp_bleu_ttc\<close> and the others); every other code
  of the mapping, as 0, has the name of the unknown colour; being a dict, the mapping has
  no key twice.
\<close>

definition colors_ok :: "const \<Rightarrow> bool" where
  "colors_ok c =
     (distinct (map fst (TEMPO_COLORS_MAPPING c)) \<and>
      map_of (TEMPO_COLORS_MAPPING c) 1 = Some ''bleu'' \<and>
      map_of (TEMPO_COLORS_MAPPING c) 2 = Some ''blanc'' \<and>
      map_of (TEMPO_COLORS_MAPPING c) 3 = Some ''rouge'' \<and>
      list_all (\<lambda>(code, name). code = 1 \<or> code = 2 \<or> code = 3 \<or> name = indetermine)
        (TEMPO_COLORS_MAPPING c))"




text \<open>The exception of an outcome, if any.\<close>

definition raised :: "error + 'a \<Rightarrow> error option" where
  "raised r = (case r of Inl e \<Rightarrow> Some e | Inr v \<Rightarrow> None)"

section \<open>Sample inputs\<close>

text \<open>
  Concrete constants, tables and states, on which the theorems below are applied. The
  values of \<open>sample_const\<close> stand for the module \<^verbatim>\<open>const.py\<close>; prices are kept as the text
  that \<^verbatim>\<open>float\<close> reads.
\<close>

definition sample_const :: const where
  "sample_const =
     \<lparr> DEFAULT_REFRESH_INTERVAL = 1,
       CONTRACT_TYPE_BASE = ''base'',
       CONTRACT_TYPE_HPHC = ''hphc'',
       CONTRACT_TYPE_TEMPO = ''tempo'',
       TARIF_BASE_URL = ''https://tarif.example/base.csv'',
       TARIF_HPHC_URL = ''https://tarif.example/hphc.csv'',
       TARIF_TEMPO_URL = ''https://tarif.example/tempo.csv'',
       TEMPO_COLOR_API_URL = ''https://tempo.example/jour'',
       TEMPO_COLORS_MAPPING = [(0, indetermine), (1, ''bleu''), (2, ''blanc''), (3, ''rouge'')],
       TEMPO_DAY_START_AT = ''06:00'',
       TEMPO_TOMRROW_AVAILABLE_AT = ''11:00'',
       TEMPO_OFFPEAK_HOURS = ''22:00-06:00'' \<rparr>"

definition sample_float :: "string pyfloat" where
  "sample_float = \<lparr> float_of_str = Some, float_zero = ''0.0'', float_div12 = (\<lambda>x. x @ ''/12'') \<rparr>"

definition world_of :: "datetime \<Rightarrow> row list fetched \<Rightarrow> body fetched \<Rightarrow> world" where
  "world_of t table answer =
     \<lparr> clock = t, fetch_table = (\<lambda>url. table), fetch_json = (\<lambda>url. answer) \<rparr>"

definition entry_of :: "string \<Rightarrow> string option \<Rightarrow> config_entry" where
  "entry_of ctype ranges =
     \<lparr> contract_type = ctype, contract_power = ''6'', refresh_interval = None,
       off_peak_hours_ranges = ranges \<rparr>"

definition row_jan :: row where
  "row_jan =
     [''DATE_DEBUT'' \<mapsto> Some ''01/01/2024'', ''DATE_FIN'' \<mapsto> Some ''31/05/2024'',
      ''PUISSANCE'' \<mapsto> Some ''6'', ''PART_FIXE_TTC'' \<mapsto> Some ''148,32'',
      ''PART_VARIABLE_HC_TTC'' \<mapsto> Some ''0,2068'', ''PART_VARIABLE_HP_TTC'' \<mapsto> Some ''0,27'']"

definition row_jun_a :: row where
  "row_jun_a =
     [''DATE_DEBUT'' \<mapsto> Some ''01/06/2024'', ''DATE_FIN'' \<mapsto> Some '''',
      ''PUISSANCE'' \<mapsto> Some ''6'', ''PART_FIXE_TTC'' \<mapsto> Some ''151,20'',
      ''PART_VARIABLE_HC_TTC'' \<mapsto> Some ''0,2068'', ''PART_VARIABLE_HP_TTC'' \<mapsto> Some ''0,27'']"

definition row_jun_b :: row where
  "row_jun_b =
     [''DATE_DEBUT'' \<mapsto> Some ''01/06/2024'', ''DATE_FIN'' \<mapsto> Some '''',
      ''PUISSANCE'' \<mapsto> Some ''6'', ''PART_FIXE_TTC'' \<mapsto> Some ''152,40'',
      ''PART_VARIABLE_HC_TTC'' \<mapsto> Some ''0,2146'', ''PART_VARIABLE_HP_TTC'' \<mapsto> Some ''0,2876'']"

definition day_record :: "string \<Rightarrow> int \<Rightarrow> jdict" where
  "day_record date_str code = [''dateJour'' \<mapsto> JStr date_str, ''codeJour'' \<mapsto> JInt code]"

text \<open>
  A coordinator on 14 July 2024: yesterday was blue, today's colour is not published,
  tomorrow is red; on the day before, the colour of the morrow was white.
\<close>

definition tempo_cache :: "string coordinator" where
  "tempo_cache =
     \<lparr> data = None,
       tempo_prices = [day_record ''2024-07-13'' 1, day_record ''2024-07-14'' 0,
                       day_record ''2024-07-15'' 3],
       previous_demain_color = None, previous_demain_date = None, requests = [] \<rparr>"




text \<open>
  Two answers of the Tempo API that are dicts with a \<^verbatim>\<open>codeJour\<close>: one whose code is a colour
  name and that has no date, one for another day with a code that is no colour.
\<close>

definition answer_bad_code :: jdict where
  "answer_bad_code = [''codeJour'' \<mapsto> JStr ''rouge'']"

definition answer_other_date :: jdict where
  "answer_other_date = [''dateJour'' \<mapsto> JStr ''1999-01-01'', ''codeJour'' \<mapsto> JInt 7]"

text \<open>An entry whose options hold a refresh interval.\<close>

definition entry_with :: "string \<Rightarrow> int \<Rightarrow> config_entry" where
  "entry_with ctype days = (entry_of ctype None)\<lparr>refresh_interval := Some days\<rparr>"

text \<open>A dict whose table was refreshed on 14 July 2024 at 8:00, and a coordinator that holds it.\<close>

definition fresh_data :: "string pydict" where
  "fresh_data =
     [''contract_power'' \<mapsto> PStr ''6'', ''contract_type'' \<mapsto> PStr ''hphc'',
      ''last_refresh_at'' \<mapsto> PDatetime ((2024, 7, 14), (8, 0, 0, 0)),
      ''tarif_actuel_ttc'' \<mapsto> PFloat ''0.27'',
      ''hphc_variable_hp_ttc'' \<mapsto> PFloat ''0.27'', ''hphc_variable_hc_ttc'' \<mapsto> PFloat ''0.2068'']"

definition fresh_state :: "string coordinator" where
  "fresh_state = init\<lparr>data := Some fresh_data\<rparr>"

section \<open>The interval test\<close>

text \<open>
  C8. Midnight-aware interval test: for all clock times \<open>now\<close>, \<open>start\<close>, \<open>end_at\<close>,
  \<open>time_in_between\<close> is true iff \<open>start \<le> now < end_at\<close> when \<open>start < end_at\<close>, and true
  iff \<open>now \<ge> start\<close> or \<open>now < end_at\<close> when \<open>start > end_at\<close>.
\<close>

theorem time_in_between_spec:
  "(start < end_at \<longrightarrow> time_in_between now start end_at = (start \<le> now \<and> now < end_at)) \<and>
   (end_at < start \<longrightarrow> time_in_between now start end_at = (start \<le> now \<or> now < end_at))"
  by (auto simp: time_in_between_def)

theorem time_in_between_spec_witness:
  "((8, 0, 0, 0) :: time) < (17, 30, 0, 0) \<and>
   time_in_between (12, 15, 0, 0) (8, 0, 0, 0) (17, 30, 0, 0) \<and>
   \<not> time_in_between (17, 30, 0, 0) (8, 0, 0, 0) (17, 30, 0, 0) \<and>
   ((6, 0, 0, 0) :: time) < (22, 0, 0, 0) \<and>
   time_in_between (23, 0, 0, 0) (22, 0, 0, 0) (6, 0, 0, 0) \<and>
   time_in_between (5, 59, 59, 999999) (22, 0, 0, 0) (6, 0, 0, 0) \<and>
   \<not> time_in_between (6, 0, 0, 0) (22, 0, 0, 0) (6, 0, 0, 0)"
  using time_in_between_spec [of "(8, 0, 0, 0)" "(17, 30, 0, 0)" "(12, 15, 0, 0)"]
    time_in_between_spec [of "(8, 0, 0, 0)" "(17, 30, 0, 0)" "(17, 30, 0, 0)"]
    time_in_between_spec [of "(22, 0, 0, 0)" "(6, 0, 0, 0)" "(23, 0, 0, 0)"]
    time_in_between_spec [of "(22, 0, 0, 0)" "(6, 0, 0, 0)" "(5, 59, 59, 999999)"]
    time_in_between_spec [of "(22, 0, 0, 0)" "(6, 0, 0, 0)" "(6, 0, 0, 0)"]
  by simp

text \<open>
  C10. When start and end are the same clock time, \<open>time_in_between\<close> is false for every
  \<open>now\<close>: the range is empty, not the whole day, and a schedule entry with equal
  endpoints is passed over by the loop of the current tariff, whatever the clock.
\<close>

theorem equal_endpoints_empty:
  "\<not> time_in_between now_t t t \<and>
   (parse_range entry = Some (Inr (t, t)) \<longrightarrow>
      scan_ranges now_t (entry # entries) = scan_ranges now_t entries)"
proof -
  have "\<not> time_in_between now_t t t" by (auto simp: time_in_between_def)
  then show ?thesis by simp
qed

section \<open>The choice of the tariff row\<close>

lemma cell_strip_text:
  "r k \<noteq> Some None \<Longrightarrow> cell_strip (get_or r k (Some [])) = Inr (cell_text (r k))"
  by (cases "r k") (auto simp: cell_strip_def get_or_def cell_text_def strip_def)

lemma cell_strip_power:
  "r ''P_SOUSCRITE'' \<noteq> Some None \<Longrightarrow> r ''PUISSANCE'' \<noteq> Some None \<Longrightarrow>
   cell_strip (get_or r ''P_SOUSCRITE'' (get_or r ''PUISSANCE'' (Some []))) = Inr (power_field r)"
  by (cases "r ''P_SOUSCRITE''"; cases "r ''PUISSANCE''")
     (auto simp: cell_strip_def get_or_def cell_text_def power_field_def strip_def)

lemma examine_row_candidate:
  assumes "no_missing_cell r"
  shows "examine_row today wanted r =
           Inr (if is_candidate today wanted r then start_date_of r else None)"
proof -
  have a: "r ''DATE_DEBUT'' \<noteq> Some None" "r ''P_SOUSCRITE'' \<noteq> Some None"
     "r ''PUISSANCE'' \<noteq> Some None" "r ''DATE_FIN'' \<noteq> Some None"
    using assms by (simp_all add: no_missing_cell_def)
  have e: "examine_row today wanted r =
     (if cell_text (r ''DATE_DEBUT'') = [] \<or> power_field r \<noteq> wanted then Inr None
      else (case str_to_date (cell_text (r ''DATE_DEBUT'')) of
              Inl e \<Rightarrow> Inr None
            | Inr start_date \<Rightarrow>
                if start_date > today then Inr None
                else if cell_text (r ''DATE_FIN'') \<noteq> [] then
                  (case str_to_date (cell_text (r ''DATE_FIN'')) of
                     Inl e \<Rightarrow> Inr None
                   | Inr end_date \<Rightarrow> if end_date < today then Inr None else Inr (Some start_date))
                else Inr (Some start_date)))"
    unfolding examine_row_def
    by (simp only: cell_strip_text [of r "''DATE_DEBUT''", OF a(1)]
        cell_strip_text [of r "''DATE_FIN''", OF a(4)]
        cell_strip_power [OF a(2) a(3)] sum.case)
  show ?thesis
  proof (cases "str_to_date (cell_text (r ''DATE_DEBUT''))")
    case (Inl x)
    then show ?thesis
      by (simp add: e is_candidate_def start_date_of_def)
  next
    case sd: (Inr sd)
    show ?thesis
    proof (cases "str_to_date (cell_text (r ''DATE_FIN''))")
      case (Inl x)
      then show ?thesis using sd
        by (auto simp add: e is_candidate_def start_date_of_def end_date_of_def not_less)
    next
      case (Inr ed)
      then show ?thesis using sd
        by (auto simp add: e is_candidate_def start_date_of_def end_date_of_def not_less)
    qed
  qed
qed

lemma scan_rows_snoc:
  "scan_rows today wanted best (rows @ [r]) =
     (case scan_rows today wanted best rows of
        Inl e \<Rightarrow> Inl e
      | Inr b \<Rightarrow> scan_rows today wanted b [r])"
  by (induction rows arbitrary: best) (auto split: sum.splits option.splits)

lemma candidate_has_start:
  "is_candidate today wanted r \<Longrightarrow> \<exists>sd. start_date_of r = Some sd"
  by (auto simp: is_candidate_def split: option.splits)

lemma scan_rows_first_latest:
  "(\<forall>r\<in>set rows. no_missing_cell r) \<Longrightarrow>
   \<exists>res. scan_rows today wanted None rows = Inr res \<and> selects_first_latest today wanted rows res"
proof (induction rows rule: rev_induct)
  case Nil
  show ?case by (simp add: selects_first_latest_def)
next
  case (snoc x rows)
  then obtain res where res: "scan_rows today wanted None rows = Inr res"
    and sel: "selects_first_latest today wanted rows res"
    by auto
  have x: "examine_row today wanted x =
             Inr (if is_candidate today wanted x then start_date_of x else None)"
    using snoc.prems by (simp add: examine_row_candidate)
  show ?case
  proof (cases "is_candidate today wanted x")
    case False
    then have "scan_rows today wanted None (rows @ [x]) = Inr res"
      by (simp add: scan_rows_snoc res x)
    moreover have "selects_first_latest today wanted (rows @ [x]) res"
    proof (cases res)
      case None
      then show ?thesis using sel False by (simp add: selects_first_latest_def)
    next
      case (Some p)
      obtain sd r where p: "p = (sd, r)" by (cases p)
      from sel Some p obtain pre post where d: "rows = pre @ r # post"
        "is_candidate today wanted r" "start_date_of r = Some sd"
        "\<forall>x\<in>set pre. \<forall>xd. is_candidate today wanted x \<longrightarrow> start_date_of x = Some xd \<longrightarrow> xd < sd"
        "\<forall>x\<in>set post. \<forall>xd. is_candidate today wanted x \<longrightarrow> start_date_of x = Some xd \<longrightarrow> xd \<le> sd"
        by (auto simp: selects_first_latest_def)
      have "rows @ [x] = pre @ r # (post @ [x])" using d(1) by simp
      moreover have "\<forall>y\<in>set (post @ [x]). \<forall>xd. is_candidate today wanted y \<longrightarrow>
                        start_date_of y = Some xd \<longrightarrow> xd \<le> sd"
        using d(5) False by auto
      ultimately show ?thesis
        unfolding selects_first_latest_def Some p using d(2,3,4) by (simp only: option.case prod.case) blast
    qed
    ultimately show ?thesis by blast
  next
    case True
    then obtain xd where xd: "start_date_of x = Some xd" using candidate_has_start by blast
    show ?thesis
    proof (cases res)
      case None
      then have "scan_rows today wanted None (rows @ [x]) = Inr (Some (xd, x))"
        by (simp add: scan_rows_snoc res x True xd)
      moreover have "selects_first_latest today wanted (rows @ [x]) (Some (xd, x))"
      proof -
        have "\<forall>y\<in>set rows. \<not> is_candidate today wanted y"
          using sel None by (simp add: selects_first_latest_def)
        then have "rows @ [x] = rows @ x # [] \<and> is_candidate today wanted x \<and> start_date_of x = Some xd \<and>
             (\<forall>y\<in>set rows. \<forall>yd. is_candidate today wanted y \<longrightarrow> start_date_of y = Some yd \<longrightarrow> yd < xd) \<and>
             (\<forall>y\<in>set []. \<forall>yd. is_candidate today wanted y \<longrightarrow> start_date_of y = Some yd \<longrightarrow> yd \<le> xd)"
          using True xd by simp
        then show ?thesis
          unfolding selects_first_latest_def by (simp only: option.case prod.case) blast
      qed
      ultimately show ?thesis by blast
    next
      case (Some p)
      obtain sd r where p: "p = (sd, r)" by (cases p)
      from sel Some p obtain pre post where d: "rows = pre @ r # post"
        "is_candidate today wanted r" "start_date_of r = Some sd"
        "\<forall>x\<in>set pre. \<forall>xd. is_candidate today wanted x \<longrightarrow> start_date_of x = Some xd \<longrightarrow> xd < sd"
        "\<forall>x\<in>set post. \<forall>xd. is_candidate today wanted x \<longrightarrow> start_date_of x = Some xd \<longrightarrow> xd \<le> sd"
        by (auto simp: selects_first_latest_def)
      show ?thesis
      proof (cases "xd > sd")
        case gt: True
        then have "scan_rows today wanted None (rows @ [x]) = Inr (Some (xd, x))"
          by (simp add: scan_rows_snoc res x True xd Some p)
        moreover have "selects_first_latest today wanted (rows @ [x]) (Some (xd, x))"
        proof -
          have "\<forall>y\<in>set rows. \<forall>yd. is_candidate today wanted y \<longrightarrow> start_date_of y = Some yd \<longrightarrow> yd < xd"
          proof (intro ballI allI impI)
            fix y yd assume y: "y \<in> set rows" "is_candidate today wanted y" "start_date_of y = Some yd"
            from y(1) d(1) consider "y \<in> set pre" | "y = r" | "y \<in> set post" by auto
            then have "yd \<le> sd"
            proof cases
              case 1 then show ?thesis using d(4) y by (meson less_imp_le)
            next
              case 2 then show ?thesis using d(3) y by simp
            next
              case 3 then show ?thesis using d(5) y by blast
            qed
            then show "yd < xd" using gt by simp
          qed
          then have "rows @ [x] = rows @ x # [] \<and> is_candidate today wanted x \<and> start_date_of x = Some xd \<and>
             (\<forall>y\<in>set rows. \<forall>yd. is_candidate today wanted y \<longrightarrow> start_date_of y = Some yd \<longrightarrow> yd < xd) \<and>
             (\<forall>y\<in>set []. \<forall>yd. is_candidate today wanted y \<longrightarrow> start_date_of y = Some yd \<longrightarrow> yd \<le> xd)"
            using True xd by simp
          then show ?thesis
            unfolding selects_first_latest_def by (simp only: option.case prod.case) blast
        qed
        ultimately show ?thesis by blast
      next
        case le: False
        then have "scan_rows today wanted None (rows @ [x]) = Inr (Some (sd, r))"
          by (simp add: scan_rows_snoc res x True xd Some p)
        moreover have "selects_first_latest today wanted (rows @ [x]) (Some (sd, r))"
        proof -
          have "rows @ [x] = pre @ r # (post @ [x])" using d(1) by simp
          moreover have "\<forall>y\<in>set (post @ [x]). \<forall>yd. is_candidate today wanted y \<longrightarrow>
                        start_date_of y = Some yd \<longrightarrow> yd \<le> sd"
            using d(5) le xd by (auto simp: not_less)
          ultimately show ?thesis
            unfolding selects_first_latest_def using d(2,3,4) by (simp only: option.case prod.case) blast
        qed
        ultimately show ?thesis by blast
      qed
    qed
  qed
qed

text \<open>
  C1, as the code has it. For every table whose rows have no missing cell, every target
  power and every date of today: a row reaches the choice iff it is a candidate (its
  start-date field is not empty, its power field, read from \<^verbatim>\<open>P_SOUSCRITE\<close>, else
  \<^verbatim>\<open>PUISSANCE\<close>, is the target power, its start date is today or earlier, its end date is
  absent, or today or later); the loop ends with the candidate of the latest start date,
  and among candidates of the same start date with the first one in file order;
  \<^verbatim>\<open>_parse_tariff_csv\<close> returns \<^verbatim>\<open>None\<close> when there is no candidate and the rates of the chosen
  row otherwise.
\<close>

theorem tariff_row_selection:
  assumes "\<forall>r\<in>set rows. no_missing_cell r"
  shows "(\<forall>r\<in>set rows. examine_row today wanted r =
            Inr (if is_candidate today wanted r then start_date_of r else None)) \<and>
         (\<exists>res. scan_rows today wanted None rows = Inr res \<and>
            selects_first_latest today wanted rows res \<and>
            parse_tariff_csv c fl today rows wanted ctype =
              (case res of
                 None \<Rightarrow> Inr None
               | Some (sd, r) \<Rightarrow>
                   (case extract_rates c fl ctype r of
                      Inl e \<Rightarrow> Inl e
                    | Inr result \<Rightarrow> Inr (Some result))))"
proof -
  from scan_rows_first_latest [OF assms, of today wanted]
  obtain res where res: "scan_rows today wanted None rows = Inr res"
    "selects_first_latest today wanted rows res"
    by blast
  have "parse_tariff_csv c fl today rows wanted ctype =
              (case res of
                 None \<Rightarrow> Inr None
               | Some (sd, r) \<Rightarrow>
                   (case extract_rates c fl ctype r of
                      Inl e \<Rightarrow> Inl e
                    | Inr result \<Rightarrow> Inr (Some result)))"
    by (simp add: parse_tariff_csv_def res(1) split: option.splits)
  then show ?thesis using res assms examine_row_candidate by blast
qed

section \<open>The colour of a day\<close>

lemma cached_day_find:
  "cached_day date_str now_t check_limit prices = find (servable date_str now_t check_limit) prices"
  by (induction prices) (auto simp: servable_def in_1_2_3_def Let_def)

lemma get_tempo_day_hit:
  assumes "str_to_time (TEMPO_TOMRROW_AVAILABLE_AT c) = Inr check_limit"
    and "find (servable (isoformat day) (snd (clock w)) check_limit) (tempo_prices s) = Some r"
  shows "get_tempo_day c w day s = Inr (r, s)"
  using assms by (simp add: get_tempo_day_def cached_day_find)

lemma get_tempo_day_miss:
  assumes "str_to_time (TEMPO_TOMRROW_AVAILABLE_AT c) = Inr check_limit"
    and "find (servable (isoformat day) (snd (clock w)) check_limit) (tempo_prices s) = None"
  shows "get_tempo_day c w day s =
           (case fetch_json w (day_url c day) of
              Fetched b \<Rightarrow>
                Inr (validate_response (isoformat day) b,
                     s\<lparr>requests := requests s @ [day_url c day],
                       tempo_prices := tempo_prices s @ [validate_response (isoformat day) b]\<rparr>)
            | ClientError \<Rightarrow> Inr (unknown_day (isoformat day), s\<lparr>requests := requests s @ [day_url c day]\<rparr>)
            | OtherException \<Rightarrow> Inr (unknown_day (isoformat day), s\<lparr>requests := requests s @ [day_url c day]\<rparr>))"
  using assms by (simp add: get_tempo_day_def cached_day_find day_url_def Let_def split: fetched.splits)

lemma requests_grow: "s\<lparr>requests := requests s @ [u]\<rparr> \<noteq> s" 
  "s\<lparr>requests := requests s @ [u], tempo_prices := p\<rparr> \<noteq> s"
proof -
  have "requests (s\<lparr>requests := requests s @ [u]\<rparr>) \<noteq> requests s" by simp
  then show "s\<lparr>requests := requests s @ [u]\<rparr> \<noteq> s" by metis
  have "requests (s\<lparr>requests := requests s @ [u], tempo_prices := p\<rparr>) \<noteq> requests s" by simp
  then show "s\<lparr>requests := requests s @ [u], tempo_prices := p\<rparr> \<noteq> s" by metis
qed

text \<open>
  C5. For every date queried: the first cached record of that date whose code is 1, 2
  or 3, or 0 while the clock is before the time of \<^verbatim>\<open>TEMPO_TOMRROW_AVAILABLE_AT\<close>, is
  returned, and nothing is fetched; a record is returned from the cache without a fetch
  iff the cache holds such a record; and when the clock has reached that time and every
  cached record of the date has the code 0, the day is fetched again from the API.
\<close>

theorem cache_lookup:
  assumes lim: "str_to_time (TEMPO_TOMRROW_AVAILABLE_AT c) = Inr check_limit"
  shows "(case find (servable (isoformat day) (snd (clock w)) check_limit) (tempo_prices s) of
            Some r \<Rightarrow> get_tempo_day c w day s = Inr (r, s)
          | None \<Rightarrow> (\<exists>r s'. get_tempo_day c w day s = Inr (r, s') \<and>
                        requests s' = requests s @ [day_url c day])) \<and>
         ((\<exists>r. get_tempo_day c w day s = Inr (r, s)) \<longleftrightarrow>
            (\<exists>r\<in>set (tempo_prices s). servable (isoformat day) (snd (clock w)) check_limit r)) \<and>
         (check_limit \<le> snd (clock w) \<longrightarrow>
          (\<forall>r\<in>set (tempo_prices s). r ''dateJour'' = Some (JStr (isoformat day)) \<longrightarrow>
               as_int (get_or r ''codeJour'' (JInt 0)) = Some 0) \<longrightarrow>
          (\<exists>r s'. get_tempo_day c w day s = Inr (r, s') \<and>
                        requests s' = requests s @ [day_url c day]))"
proof (cases "find (servable (isoformat day) (snd (clock w)) check_limit) (tempo_prices s)")
  case None
  have miss: "\<exists>r s'. get_tempo_day c w day s = Inr (r, s') \<and> requests s' = requests s @ [day_url c day]"
    by (cases "fetch_json w (day_url c day)") (simp_all add: get_tempo_day_miss [OF lim None])
  have "\<not> (\<exists>r. get_tempo_day c w day s = Inr (r, s))"
    by (cases "fetch_json w (day_url c day)") (simp_all add: get_tempo_day_miss [OF lim None] requests_grow)
  moreover have "\<not> (\<exists>r\<in>set (tempo_prices s). servable (isoformat day) (snd (clock w)) check_limit r)"
    using None by (simp add: find_None_iff)
  ultimately show ?thesis using None miss by simp
next
  case (Some r)
  have hit: "get_tempo_day c w day s = Inr (r, s)" by (rule get_tempo_day_hit [OF lim Some])
  from Some have r: "r \<in> set (tempo_prices s)" "servable (isoformat day) (snd (clock w)) check_limit r"
    by (auto simp: find_Some_iff)
  have "\<not> (check_limit \<le> snd (clock w) \<and>
          (\<forall>r\<in>set (tempo_prices s). r ''dateJour'' = Some (JStr (isoformat day)) \<longrightarrow>
               as_int (get_or r ''codeJour'' (JInt 0)) = Some 0))"
    using r by (auto simp: servable_def Let_def not_le)
  then show ?thesis using Some hit r by auto
qed

text \<open>
  C6, as the code has it. For every date \<^verbatim>\<open>get_tempo_day\<close> returns a record and raises
  nothing. A record that the cache can serve is returned as it is, and nothing else
  changes. Otherwise: after a network error or any other exception of the fetch, the
  record has the requested date and the code 0, and the cache is left as it was; a
  response that is not a dict, or a dict without \<^verbatim>\<open>codeJour\<close>, gives the record of the
  requested date and the code 0; every other response is taken as it came, whatever its
  \<^verbatim>\<open>codeJour\<close> and \<^verbatim>\<open>dateJour\<close> are, with \<^verbatim>\<open>dateJour\<close> set to the requested date only when
  the response has none; and after a response the record returned is appended to the
  cache.
\<close>

theorem get_tempo_day_total:
  assumes lim: "str_to_time (TEMPO_TOMRROW_AVAILABLE_AT c) = Inr check_limit"
  shows "\<exists>r s'. get_tempo_day c w day s = Inr (r, s') \<and>
           (case find (servable (isoformat day) (snd (clock w)) check_limit) (tempo_prices s) of
              Some hit \<Rightarrow> r = hit \<and> s' = s
            | None \<Rightarrow>
                (case fetch_json w (day_url c day) of
                   Fetched NotDict \<Rightarrow>
                     r = [''dateJour'' \<mapsto> JStr (isoformat day), ''codeJour'' \<mapsto> JInt 0] \<and>
                     tempo_prices s' = tempo_prices s @ [r]
                 | Fetched (Dict j) \<Rightarrow>
                     r = (if j ''codeJour'' = None
                          then [''dateJour'' \<mapsto> JStr (isoformat day), ''codeJour'' \<mapsto> JInt 0]
                          else if j ''dateJour'' = None then j(''dateJour'' \<mapsto> JStr (isoformat day))
                          else j) \<and>
                     tempo_prices s' = tempo_prices s @ [r]
                 | ClientError \<Rightarrow>
                     r = [''dateJour'' \<mapsto> JStr (isoformat day), ''codeJour'' \<mapsto> JInt 0] \<and>
                     tempo_prices s' = tempo_prices s
                 | OtherException \<Rightarrow>
                     r = [''dateJour'' \<mapsto> JStr (isoformat day), ''codeJour'' \<mapsto> JInt 0] \<and>
                     tempo_prices s' = tempo_prices s))"
proof (cases "find (servable (isoformat day) (snd (clock w)) check_limit) (tempo_prices s)")
  case None
  show ?thesis
  proof (cases "fetch_json w (day_url c day)")
    case (Fetched b)
    show ?thesis
    proof (cases b)
      case NotDict
      then show ?thesis using None Fetched
        by (simp add: get_tempo_day_miss [OF lim None] validate_response_def unknown_day_def)
    next
      case (Dict j)
      then show ?thesis using None Fetched
        by (simp add: get_tempo_day_miss [OF lim None] validate_response_def unknown_day_def)
    qed
  next
    case ClientError
    then show ?thesis using None by (simp add: get_tempo_day_miss [OF lim None] unknown_day_def)
  next
    case OtherException
    then show ?thesis using None by (simp add: get_tempo_day_miss [OF lim None] unknown_day_def)
  qed
next
  case (Some r)
  then show ?thesis by (simp add: get_tempo_day_hit [OF lim Some])
qed

section \<open>The refresh of the table\<close>

text \<open>
  The flag of lines 276 to 279 in the words of the specification: when line 275 can
  compute the limit, a refresh is made iff it is due; when it cannot, the cycle ends
  there with \<^verbatim>\<open>OverflowError\<close>.
\<close>

lemma tarif_needs_update_overflow:
  assumes "\<not> days_in_range (clock w) (refresh_interval_of c entry)"
  shows "tarif_needs_update c w entry d = Inl OverflowError"
  using assms by (simp add: tarif_needs_update_def fresh_data_limit_def)

lemma tarif_needs_update_due:
  assumes "days_in_range (clock w) (refresh_interval_of c entry)"
  shows "(tarif_needs_update c w entry d = Inr True) = refresh_due c w entry d"
    and "(tarif_needs_update c w entry d = Inr False) = table_fresh c w entry d"
  using assms
  by (auto simp: tarif_needs_update_def fresh_data_limit_def refresh_due_def table_fresh_def
      older_than_def split: pyval.splits)

lemma refresh_tariff_overflow:
  assumes "\<not> days_in_range (clock w) (refresh_interval_of c entry)"
  shows "refresh_tariff c fl w entry d s = (Some OverflowError, d, s)"
  by (simp add: refresh_tariff_def tarif_needs_update_overflow [OF assms])

lemma refresh_tariff_not_due:
  assumes "tarif_needs_update c w entry d \<noteq> Inr True"
    and "refresh_tariff c fl w entry d s = (out, d', s')"
  shows "d' = d" and "s' = s"
  using assms by (auto simp: refresh_tariff_def split: sum.splits bool.splits)

lemma refresh_tariff_raises:
  assumes "refresh_tariff c fl w entry d s = (Some e, d', s')"
  shows "d' = d"
  using assms
  by (auto simp: refresh_tariff_def fetch_tariff_def Let_def
      split: sum.splits bool.splits fetched.splits option.splits if_splits)

lemma refresh_tariff_stage:
  assumes due: "tarif_needs_update c w entry d = Inr True"
    and run: "refresh_tariff c fl w entry d s = (out, d', s')"
  shows "(d' \<noteq> d \<longrightarrow>
            (\<exists>url content m. tariff_url c (contract_type entry) = Inr url \<and>
               fetch_table w url = Fetched content \<and>
               scan_rows (fst (clock w)) (contract_power entry) None content = Inr (Some m) \<and>
               d' ''last_refresh_at'' = Some (PDatetime (clock w)) \<and> out = None)) \<and>
         (\<forall>url. tariff_url c (contract_type entry) = Inr url \<longrightarrow>
            (fetch_table w url = ClientError \<or> fetch_table w url = OtherException \<or>
             (\<exists>content e. fetch_table w url = Fetched content \<and>
                parse_tariff_csv c fl (fst (clock w)) content (contract_power entry)
                  (contract_type entry) = Inl e)) \<longrightarrow>
            out = Some UpdateFailed \<and> d' = d) \<and>
         (\<forall>url content. tariff_url c (contract_type entry) = Inr url \<longrightarrow>
            fetch_table w url = Fetched content \<longrightarrow>
            scan_rows (fst (clock w)) (contract_power entry) None content = Inr None \<longrightarrow>
            out = None \<and> d' = d)"
proof (cases "tariff_url c (contract_type entry)")
  case (Inl e)
  then show ?thesis using due run by (simp add: refresh_tariff_def)
next
  case (Inr url)
  then have f: "fetch_tariff c fl w entry url d s = (out, d', s')"
    using due run by (simp add: refresh_tariff_def)
  show ?thesis
  proof (cases "fetch_table w url")
    case (Fetched content)
    show ?thesis
    proof (cases "scan_rows (fst (clock w)) (contract_power entry) None content")
      case (Inl e)
      then show ?thesis using f Inr Fetched
        by (auto simp: fetch_tariff_def parse_tariff_csv_def Let_def)
    next
      case sc: (Inr best)
      show ?thesis
      proof (cases best)
        case None
        then show ?thesis using f Inr Fetched sc
          by (auto simp: fetch_tariff_def parse_tariff_csv_def Let_def)
      next
        case (Some m)
        obtain best_date best_match where m: "m = (best_date, best_match)" by (cases m)
        show ?thesis
        proof (cases "extract_rates c fl (contract_type entry) best_match")
          case (Inl e)
          then show ?thesis using f Inr Fetched sc Some m
            by (auto simp: fetch_tariff_def parse_tariff_csv_def Let_def)
        next
          case rates: (Inr rates)
          show ?thesis
          proof (cases "rates = []")
            case True
            then show ?thesis using f Inr Fetched sc Some m rates
              by (auto simp: fetch_tariff_def parse_tariff_csv_def Let_def)
          next
            case False
            then have "out = None" "d' = (dict_update d rates)(''last_refresh_at'' \<mapsto> PDatetime (clock w))"
              using f Inr Fetched sc Some m rates
              by (simp_all add: fetch_tariff_def parse_tariff_csv_def Let_def)
            then show ?thesis using Inr Fetched sc Some m rates
              by (simp add: parse_tariff_csv_def) (metis prod_cases3)
          qed
        qed
      qed
    qed
  next
    case ClientError
    then show ?thesis using f Inr by (auto simp: fetch_tariff_def Let_def)
  next
    case OtherException
    then show ?thesis using f Inr by (auto simp: fetch_tariff_def Let_def)
  qed
qed

text \<open>
  C7. For every cycle: the dict changes, and \<^verbatim>\<open>last_refresh_at\<close> with it, only when a
  refresh is due, the table was fetched and it has a matching row. When a refresh is due
  and line 275 has its limit: if the fetch fails (a transport error or any other
  exception) or \<^verbatim>\<open>_parse_tariff_csv\<close> raises, the refresh raises \<^verbatim>\<open>UpdateFailed\<close> and the
  dict, with all its rates and \<^verbatim>\<open>last_refresh_at\<close>, is as before; if the table is fetched
  and no row matches, nothing is raised and the dict is as before. When line 275 cannot
  compute its limit it raises \<^verbatim>\<open>OverflowError\<close>: nothing is fetched and nothing changes.
  Every exception of the refresh leaves the dict as it was, and is the exception of the
  cycle.
\<close>

theorem refresh_atomic:
  assumes run: "refresh_tariff c fl w entry d s = (out, d', s')"
    and d: "d = (case data s of None \<Rightarrow> initial_data entry | Some x \<Rightarrow> x)"
  shows "(d' \<noteq> d \<longrightarrow>
            refresh_due c w entry d \<and>
            (\<exists>url content m. tariff_url c (contract_type entry) = Inr url \<and>
               fetch_table w url = Fetched content \<and>
               scan_rows (fst (clock w)) (contract_power entry) None content = Inr (Some m) \<and>
               d' ''last_refresh_at'' = Some (PDatetime (clock w)) \<and> out = None)) \<and>
         (refresh_due c w entry d \<longrightarrow> days_in_range (clock w) (refresh_interval_of c entry) \<longrightarrow>
            (\<forall>url. tariff_url c (contract_type entry) = Inr url \<longrightarrow>
               (fetch_table w url = ClientError \<or> fetch_table w url = OtherException \<or>
                (\<exists>content e. fetch_table w url = Fetched content \<and>
                   parse_tariff_csv c fl (fst (clock w)) content (contract_power entry)
                     (contract_type entry) = Inl e)) \<longrightarrow>
               out = Some UpdateFailed \<and> d' = d) \<and>
            (\<forall>url content. tariff_url c (contract_type entry) = Inr url \<longrightarrow>
               fetch_table w url = Fetched content \<longrightarrow>
               scan_rows (fst (clock w)) (contract_power entry) None content = Inr None \<longrightarrow>
               out = None \<and> d' = d)) \<and>
         (\<not> days_in_range (clock w) (refresh_interval_of c entry) \<longrightarrow>
            out = Some OverflowError \<and> d' = d \<and> s' = s) \<and>
         (\<forall>e. out = Some e \<longrightarrow>
            d' = d \<and> async_update_data c fl w entry s = (Inl e, s'\<lparr>data := Some d\<rparr>))"
proof -
  have raises: "\<forall>e. out = Some e \<longrightarrow>
            d' = d \<and> async_update_data c fl w entry s = (Inl e, s'\<lparr>data := Some d\<rparr>)"
  proof (intro allI impI)
    fix e assume e: "out = Some e"
    then have same: "d' = d" using run refresh_tariff_raises by metis
    have "async_update_data c fl w entry s = (Inl e, s'\<lparr>data := Some d'\<rparr>)"
      using run e unfolding d by (simp add: async_update_data_def)
    then show "d' = d \<and> async_update_data c fl w entry s = (Inl e, s'\<lparr>data := Some d\<rparr>)"
      using same by simp
  qed
  show ?thesis
  proof (cases "days_in_range (clock w) (refresh_interval_of c entry)")
    case False
    have "out = Some OverflowError" "d' = d" "s' = s"
      using run refresh_tariff_overflow [OF False, of fl d s] by simp_all
    then show ?thesis using False raises by simp
  next
    case True
    show ?thesis
    proof (cases "refresh_due c w entry d")
      case due: True
      then have flag: "tarif_needs_update c w entry d = Inr True"
        by (simp add: tarif_needs_update_due(1) [OF True])
      from refresh_tariff_stage [OF flag run] show ?thesis using True due raises by blast
    next
      case False
      then have "tarif_needs_update c w entry d \<noteq> Inr True"
        by (simp add: tarif_needs_update_due(1) [OF True])
      then have "d' = d" using run refresh_tariff_not_due(1) by metis
      then show ?thesis using True False raises by simp
    qed
  qed
qed


section \<open>The Tempo colours\<close>

lemma get_tempo_day_keeps:
  assumes "get_tempo_day c w day s = Inr (r, s')"
  shows "previous_demain_color s' = previous_demain_color s"
    and "previous_demain_date s' = previous_demain_date s"
    and "data s' = data s"
  using assms
  by (auto simp: get_tempo_day_def Let_def split: sum.splits option.splits fetched.splits)

lemma setdefault_other: "k \<noteq> k' \<Longrightarrow> setdefault d k' v k = d k"
  by (simp add: setdefault_def)



lemma set_current_rates_other:
  assumes "k \<noteq> ''tempo_couleur''" "k \<noteq> ''tempo_variable_hp_ttc''" "k \<noteq> ''tempo_variable_hc_ttc''"
  shows "set_current_rates c code d k = d k"
  using assms
  by (auto simp: set_current_rates_def Let_def setdefault_def split: option.splits)

lemma resolve_upd:
  assumes "k \<noteq> ''_fallback_today_color''" "k \<noteq> ''_fallback_today_date''"
  shows "resolve_today_color (d(k \<mapsto> v)) s t col = resolve_today_color d s t col"
proof -
  have "get (d(k \<mapsto> v)) ''_fallback_today_color'' = get d ''_fallback_today_color''"
    "get (d(k \<mapsto> v)) ''_fallback_today_date'' = get d ''_fallback_today_date''"
    using assms by (simp_all add: get_def get_or_def)
  then show ?thesis unfolding resolve_today_color_def by (simp only:)
qed




lemma known_color_name:
  assumes "colors_ok c" "in_1_2_3 code"
  shows "get_tempo_color_from_code c code = ''bleu'' \<or>
         get_tempo_color_from_code c code = ''blanc'' \<or>
         get_tempo_color_from_code c code = ''rouge''"
  using assms by (auto simp: colors_ok_def in_1_2_3_def get_tempo_color_from_code_def get_or_def)



lemma rates_inv_cases:
  assumes "rates_inv d"
  obtains (loaded) "\<And>k. k \<in> set tempo_rate_keys \<Longrightarrow> \<exists>v. d k = Some v"
  | (empty) "\<And>k. k \<in> set tempo_rate_keys \<Longrightarrow> d k = None"
      "get d ''tempo_variable_hp_ttc'' = PNone" "get d ''tempo_variable_hc_ttc'' = PNone"
  using assms unfolding rates_inv_def by auto

lemma set_current_rates_known:
  assumes known: "in_1_2_3 code"
    and col: "col = get_tempo_color_from_code c code"
    and three: "col = ''bleu'' \<or> col = ''blanc'' \<or> col = ''rouge''"
    and inv: "rates_inv d"
  shows "get (set_current_rates c code d) ''tempo_couleur'' = PStr col \<and>
         get (set_current_rates c code d) ''tempo_variable_hp_ttc'' =
           get (set_current_rates c code d) (''tempo_variable_hp_'' @ col @ ''_ttc'') \<and>
         get (set_current_rates c code d) ''tempo_variable_hc_ttc'' =
           get (set_current_rates c code d) (''tempo_variable_hc_'' @ col @ ''_ttc'')"
  using inv
proof (cases rule: rates_inv_cases)
  case loaded
  have "\<exists>v. d ''tempo_variable_hc_bleu_ttc'' = Some v" "\<exists>v. d ''tempo_variable_hp_bleu_ttc'' = Some v"
    "\<exists>v. d ''tempo_variable_hc_blanc_ttc'' = Some v" "\<exists>v. d ''tempo_variable_hp_blanc_ttc'' = Some v"
    "\<exists>v. d ''tempo_variable_hc_rouge_ttc'' = Some v" "\<exists>v. d ''tempo_variable_hp_rouge_ttc'' = Some v"
    by (rule loaded, simp add: tempo_rate_keys_def)+
  then show ?thesis using known col [symmetric] three
    by (auto simp: set_current_rates_def Let_def get_def get_or_def)
next
  case empty
  have "d ''tempo_variable_hc_bleu_ttc'' = None" "d ''tempo_variable_hp_bleu_ttc'' = None"
    "d ''tempo_variable_hc_blanc_ttc'' = None" "d ''tempo_variable_hp_blanc_ttc'' = None"
    "d ''tempo_variable_hc_rouge_ttc'' = None" "d ''tempo_variable_hp_rouge_ttc'' = None"
    by (rule empty(1), simp add: tempo_rate_keys_def)+
  then show ?thesis using known col [symmetric] three empty(2,3)
    by (auto simp: set_current_rates_def Let_def get_def get_or_def)
qed

lemma set_current_rates_unknown:
  assumes "\<not> in_1_2_3 code"
  shows "get (set_current_rates c code d) ''tempo_couleur'' = PStr indetermine \<and>
         get (set_current_rates c code d) ''tempo_variable_hp_ttc'' = get d ''tempo_variable_hp_ttc'' \<and>
         get (set_current_rates c code d) ''tempo_variable_hc_ttc'' = get d ''tempo_variable_hc_ttc'' \<and>
         set_current_rates c code d ''tempo_variable_hp_ttc'' \<noteq> None \<and>
         set_current_rates c code d ''tempo_variable_hc_ttc'' \<noteq> None"
  using assms
  by (auto simp: set_current_rates_def Let_def get_def get_or_def setdefault_def)



lemma rates_inv_cong:
  assumes "\<And>k. k \<in> set (''tempo_variable_hp_ttc'' # ''tempo_variable_hc_ttc'' # tempo_rate_keys) \<Longrightarrow> D k = d k"
  shows "rates_inv D = rates_inv d"
proof -
  have "get D ''tempo_variable_hp_ttc'' = get d ''tempo_variable_hp_ttc''"
    "get D ''tempo_variable_hc_ttc'' = get d ''tempo_variable_hc_ttc''"
    using assms by (simp_all add: get_def get_or_def)
  moreover have "\<forall>k\<in>set tempo_rate_keys. D k = d k" using assms by simp
  ultimately show ?thesis unfolding rates_inv_def by simp
qed

subsection \<open>The invariants hold in every state that the coordinator reaches\<close>

lemma dict_update_other:
  "k \<notin> fst ` set items \<Longrightarrow> dict_update d items k = d k"
  by (induction items arbitrary: d) auto

lemma dict_update_present:
  "k \<in> fst ` set items \<Longrightarrow> dict_update d items k \<noteq> None"
proof (induction items arbitrary: d)
  case Nil
  then show ?case by simp
next
  case (Cons a items)
  obtain k' v where a: "a = (k', v)" by (cases a)
  show ?case
  proof (cases "k \<in> fst ` set items")
    case True
    then show ?thesis using Cons.IH a by simp
  next
    case False
    then have "k = k'" using Cons.prems a by auto
    then show ?thesis using False a by (simp add: dict_update_other)
  qed
qed

lemma parse_prices_keys:
  "parse_prices fl r kcs = Inr res \<Longrightarrow> map fst res = map fst kcs"
  by (induction kcs arbitrary: res) (auto split: sum.splits)

lemma rates_of_keys:
  "rates_of fl r prefix vars = Inr res \<Longrightarrow>
   map fst res = (prefix @ ''_fixe_ttc'') # map fst vars @ [prefix @ ''_abonnement_ttc'']"
  by (auto simp: rates_of_def split: sum.splits dest: parse_prices_keys)

lemma extract_rates_keys:
  assumes "extract_rates c fl ctype r = Inr res"
  shows "map fst res = [''base_fixe_ttc'', ''base_variable_ttc'', ''base_abonnement_ttc''] \<or>
         map fst res = [''hphc_fixe_ttc'', ''hphc_variable_hc_ttc'', ''hphc_variable_hp_ttc'',
                        ''hphc_abonnement_ttc''] \<or>
         map fst res = ''tempo_fixe_ttc'' # tempo_rate_keys @ [''tempo_abonnement_ttc''] \<or>
         res = []"
  using assms
  by (auto simp: extract_rates_def tempo_rate_keys_def split: if_splits dest!: rates_of_keys)

lemma rates_inv_update:
  assumes inv: "rates_inv d" and ex: "extract_rates c fl ctype r = Inr res"
  shows "rates_inv ((dict_update d res)(''last_refresh_at'' \<mapsto> v))"
proof -
  let ?D = "(dict_update d res)(''last_refresh_at'' \<mapsto> v)"
  have set_eq: "fst ` set res = set (map fst res)" by simp
  from extract_rates_keys [OF ex] consider
    (tempo) "map fst res = ''tempo_fixe_ttc'' # tempo_rate_keys @ [''tempo_abonnement_ttc'']"
    | (other) "\<forall>k\<in>set (''tempo_variable_hp_ttc'' # ''tempo_variable_hc_ttc'' # tempo_rate_keys).
                 k \<notin> set (map fst res)"
    by (auto simp: tempo_rate_keys_def)
  then show ?thesis
  proof cases
    case tempo
    have "\<forall>k\<in>set tempo_rate_keys. ?D k \<noteq> None"
    proof
      fix k assume k: "k \<in> set tempo_rate_keys"
      then have "k \<in> fst ` set res" unfolding set_eq tempo by simp
      then have "dict_update d res k \<noteq> None" by (rule dict_update_present)
      then show "?D k \<noteq> None" by simp
    qed
    then show ?thesis by (simp add: rates_inv_def)
  next
    case other
    have "rates_inv ?D = rates_inv d"
    proof (rule rates_inv_cong)
      fix k assume k: "k \<in> set (''tempo_variable_hp_ttc'' # ''tempo_variable_hc_ttc'' # tempo_rate_keys)"
      then have "k \<notin> fst ` set res" using other unfolding set_eq by blast
      then have "dict_update d res k = d k" by (rule dict_update_other)
      moreover have "k \<noteq> ''last_refresh_at''" using k by (auto simp: tempo_rate_keys_def)
      ultimately show "?D k = d k" by simp
    qed
    then show ?thesis using inv by simp
  qed
qed

lemma fetch_tariff_inv:
  assumes "rates_inv d" "fetch_tariff c fl w entry url d s = (out, d', s')"
  shows "rates_inv d'"
    and "previous_demain_color s' = previous_demain_color s"
    and "previous_demain_date s' = previous_demain_date s"
  using assms
  by (auto simp: fetch_tariff_def parse_tariff_csv_def Let_def rates_inv_update
      split: fetched.splits sum.splits option.splits if_splits)

lemma refresh_tariff_inv:
  assumes "rates_inv d" "refresh_tariff c fl w entry d s = (out, d', s')"
  shows "rates_inv d'"
    and "previous_demain_color s' = previous_demain_color s"
    and "previous_demain_date s' = previous_demain_date s"
  using assms fetch_tariff_inv [of d c fl w entry _ s out d' s']
  by (auto simp: refresh_tariff_def split: sum.splits bool.splits)


lemma rates_inv_set_current_rates:
  assumes colors: "colors_ok c" and inv: "rates_inv d"
  shows "rates_inv (set_current_rates c code d)"
proof (cases "in_1_2_3 code")
  case True
  have keys: "\<And>k. k \<in> set tempo_rate_keys \<Longrightarrow> set_current_rates c code d k = d k"
    by (rule set_current_rates_other) (auto simp: tempo_rate_keys_def)
  from inv show ?thesis
  proof (cases rule: rates_inv_cases)
    case loaded
    then show ?thesis unfolding rates_inv_def using keys by force
  next
    case empty
    let ?col = "get_tempo_color_from_code c code"
    from set_current_rates_known [OF True refl known_color_name [OF colors True] inv]
    have "get (set_current_rates c code d) ''tempo_variable_hp_ttc'' =
            get (set_current_rates c code d) (''tempo_variable_hp_'' @ ?col @ ''_ttc'')"
      "get (set_current_rates c code d) ''tempo_variable_hc_ttc'' =
            get (set_current_rates c code d) (''tempo_variable_hc_'' @ ?col @ ''_ttc'')"
      by blast+
    moreover have "''tempo_variable_hp_'' @ ?col @ ''_ttc'' \<in> set tempo_rate_keys"
      "''tempo_variable_hc_'' @ ?col @ ''_ttc'' \<in> set tempo_rate_keys"
      using known_color_name [OF colors True] by (auto simp: tempo_rate_keys_def)
    ultimately have "get (set_current_rates c code d) ''tempo_variable_hp_ttc'' = PNone"
      "get (set_current_rates c code d) ''tempo_variable_hc_ttc'' = PNone"
      using keys empty(1) by (simp_all add: get_def get_or_def)
    then show ?thesis unfolding rates_inv_def using keys empty(1) by simp
  qed
next
  case False
  have keys: "\<And>k. k \<in> set tempo_rate_keys \<Longrightarrow> set_current_rates c code d k = d k"
    by (rule set_current_rates_other) (auto simp: tempo_rate_keys_def)
  from set_current_rates_unknown [OF False, of c d]
  have "get (set_current_rates c code d) ''tempo_variable_hp_ttc'' = get d ''tempo_variable_hp_ttc''"
    "get (set_current_rates c code d) ''tempo_variable_hc_ttc'' = get d ''tempo_variable_hc_ttc''"
    by blast+
  then show ?thesis using inv keys unfolding rates_inv_def by simp
qed

lemma get_setdefault_none: "get (setdefault d k PNone) k' = get d k'"
  by (auto simp: setdefault_def get_def get_or_def)

lemma rates_inv_tempo_defaults:
  assumes inv: "rates_inv d"
  shows "rates_inv (tempo_defaults d)"
proof -
  have keys: "\<And>k. k \<in> set tempo_rate_keys \<Longrightarrow> tempo_defaults d k = d k"
    unfolding tempo_defaults_def by (auto simp: tempo_rate_keys_def setdefault_other)
  have "get (tempo_defaults d) ''tempo_variable_hp_ttc'' = get d ''tempo_variable_hp_ttc''"
    "get (tempo_defaults d) ''tempo_variable_hc_ttc'' = get d ''tempo_variable_hc_ttc''"
    unfolding tempo_defaults_def
    by (simp_all add: get_setdefault_none) (simp_all add: get_def get_or_def setdefault_other)
  then show ?thesis using inv keys unfolding rates_inv_def by simp
qed

lemma apply_colors_inv:
  assumes colors: "colors_ok c" and inv: "rates_inv d" "fallback_inv s"
  shows "rates_inv (fst (apply_colors c w ty tt tm d s))"
    and "fallback_inv (snd (apply_colors c w ty tt tm d s))"
proof -
  let ?mc = "get_tempo_color_from_code c (get_or tm ''codeJour'' (JInt 0))"
  let ?d2 = "d(''tempo_couleur_hier'' \<mapsto> PStr (get_tempo_color_from_code c (get_or ty ''codeJour'' (JInt 0))),
               ''tempo_couleur_demain'' \<mapsto> PStr ?mc,
               ''tempo_couleur_aujourdhui'' \<mapsto>
                  resolve_today_color d s (fst (clock w))
                    (get_tempo_color_from_code c (get_or tt ''codeJour'' (JInt 0))))"
  let ?st = "store_demain ?mc (tomorrow_of (fst (clock w))) ?d2 s"
  have d2: "rates_inv ?d2 = rates_inv d"
    by (rule rates_inv_cong) (auto simp: tempo_rate_keys_def)
  have d3: "rates_inv (fst ?st) = rates_inv ?d2"
    by (rule rates_inv_cong) (auto simp: tempo_rate_keys_def store_demain_def)
  have i3: "rates_inv (fst ?st)" using d2 d3 inv(1) by simp
  have f3: "fallback_inv (snd ?st)"
    using inv(2) by (simp add: store_demain_def fallback_inv_def)
  have eq: "apply_colors c w ty tt tm d s =
        (case str_to_time (TEMPO_DAY_START_AT c) of
           Inl e \<Rightarrow> (tempo_defaults (fst ?st), snd ?st)
         | Inr day_start \<Rightarrow>
             (set_current_rates c
                (if snd (clock w) \<ge> day_start
                 then JInt (get_color_code_from_name c
                        (resolve_today_color d s (fst (clock w))
                          (get_tempo_color_from_code c (get_or tt ''codeJour'' (JInt 0)))))
                 else get_or ty ''codeJour'' (JInt 0)) (fst ?st), snd ?st))"
    unfolding apply_colors_def Let_def
    by (cases "str_to_time (TEMPO_DAY_START_AT c)") (simp_all add: resolve_upd split_beta)
  show "rates_inv (fst (apply_colors c w ty tt tm d s))"
    unfolding eq using i3 rates_inv_tempo_defaults rates_inv_set_current_rates [OF colors]
    by (auto split: sum.splits)
  show "fallback_inv (snd (apply_colors c w ty tt tm d s))"
    unfolding eq using f3 by (auto split: sum.splits)
qed

lemma get_tempo_day_fallback_inv:
  "get_tempo_day c w day s = Inr (r, s') \<Longrightarrow> fallback_inv s' = fallback_inv s"
  using get_tempo_day_keeps [of c w day s r s'] by (simp add: fallback_inv_def)

lemma handle_tempo_inv:
  assumes colors: "colors_ok c" and inv: "rates_inv d" "fallback_inv s"
  shows "rates_inv (fst (handle_tempo c w d s)) \<and> fallback_inv (snd (handle_tempo c w d s))"
proof (cases "get_tempo_day c w (yesterday_of (fst (clock w))) s")
  case (Inl e)
  then show ?thesis using inv by (simp add: handle_tempo_def Let_def rates_inv_tempo_defaults)
next
  case (Inr p1)
  obtain ty s1 where p1: "p1 = (ty, s1)" by (cases p1)
  have i1: "fallback_inv s1" using get_tempo_day_fallback_inv Inr p1 inv(2) by blast
  show ?thesis
  proof (cases "get_tempo_day c w (fst (clock w)) s1")
    case (Inl e)
    then show ?thesis using inv(1) i1 Inr p1
      by (simp add: handle_tempo_def Let_def rates_inv_tempo_defaults)
  next
    case r2: (Inr p2)
    obtain tt s2 where p2: "p2 = (tt, s2)" by (cases p2)
    have i2: "fallback_inv s2" using get_tempo_day_fallback_inv r2 p2 i1 by blast
    show ?thesis
    proof (cases "get_tempo_day c w (tomorrow_of (fst (clock w))) s2")
      case (Inl e)
      then show ?thesis using inv(1) i2 Inr p1 r2 p2
        by (simp add: handle_tempo_def Let_def rates_inv_tempo_defaults)
    next
      case r3: (Inr p3)
      obtain tm s3 where p3: "p3 = (tm, s3)" by (cases p3)
      have i3: "fallback_inv s3" using get_tempo_day_fallback_inv r3 p3 i2 by blast
      have "handle_tempo c w d s = apply_colors c w ty tt tm d s3"
        using Inr p1 r2 p2 r3 p3 by (simp add: handle_tempo_def Let_def)
      then show ?thesis using apply_colors_inv [OF colors inv(1) i3] by simp
    qed
  qed
qed

lemma current_tariff_inv:
  assumes "current_tariff c w entry d = Inr d'" "rates_inv d"
  shows "rates_inv d'"
proof -
  have "rates_inv d' = rates_inv d"
  proof (rule rates_inv_cong)
    fix k assume "k \<in> set (''tempo_variable_hp_ttc'' # ''tempo_variable_hc_ttc'' # tempo_rate_keys)"
    then have "k \<noteq> ''tarif_actuel_ttc''" "k \<noteq> ''is_off_peak''"
      by (auto simp: tempo_rate_keys_def)
    then show "d' k = d k" using assms(1)
      by (auto simp: current_tariff_def Let_def split: if_splits sum.splits)
  qed
  then show ?thesis using assms(2) by simp
qed

lemma rates_inv_initial: "rates_inv (initial_data entry)"
  by (simp add: rates_inv_def initial_data_def tempo_rate_keys_def get_def get_or_def)

lemma coordinator_inv_init: "coordinator_inv init"
  by (simp add: coordinator_inv_def init_def fallback_inv_def)

lemma coordinator_inv_cycle:
  assumes colors: "colors_ok c" and inv: "coordinator_inv s"
  shows "coordinator_inv (snd (async_update_data c fl w entry s))"
proof -
  let ?d0 = "case data s of None \<Rightarrow> initial_data entry | Some d \<Rightarrow> d"
  have i0: "rates_inv ?d0" using inv rates_inv_initial
    by (auto simp: coordinator_inv_def split: option.splits)
  have f0: "fallback_inv s" using inv by (simp add: coordinator_inv_def)
  obtain out d1 s1 where r: "refresh_tariff c fl w entry ?d0 s = (out, d1, s1)"
    by (cases "refresh_tariff c fl w entry ?d0 s")
  have i1: "rates_inv d1" and f1: "fallback_inv s1"
    using refresh_tariff_inv [OF i0 r] f0 by (simp_all add: fallback_inv_def)
  show ?thesis
  proof (cases out)
    case (Some e)
    then show ?thesis using r i1 f1
      by (simp add: async_update_data_def coordinator_inv_def fallback_inv_def)
  next
    case None
    obtain d2 s2 where t: "(if contract_type entry = CONTRACT_TYPE_TEMPO c
                            then handle_tempo c w d1 s1 else (d1, s1)) = (d2, s2)"
      by (cases "if contract_type entry = CONTRACT_TYPE_TEMPO c then handle_tempo c w d1 s1 else (d1, s1)")
    have i2: "rates_inv d2" and f2: "fallback_inv s2"
      using t handle_tempo_inv [OF colors i1 f1, of w] i1 f1 by (auto split: if_splits)
    show ?thesis
    proof (cases "current_tariff c w entry d2")
      case (Inl e)
      then show ?thesis using r None t i2 f2
        by (simp add: async_update_data_def coordinator_inv_def fallback_inv_def)
    next
      case (Inr d3)
      then show ?thesis using r None t current_tariff_inv [OF Inr i2] f2
        by (simp add: async_update_data_def coordinator_inv_def fallback_inv_def)
    qed
  qed
qed

subsection \<open>Colour continuity\<close>


subsection \<open>The current colour\<close>











subsection \<open>The Tempo part within the cycle\<close>

text \<open>
  A cycle of a Tempo contract that returns has run \<open>handle_tempo\<close> on the dict that the
  refresh left, and the current tariff after it writes \<^verbatim>\<open>tarif_actuel_ttc\<close> and
  \<^verbatim>\<open>is_off_peak\<close> only: what the two theorems above say of the dict after \<open>handle_tempo\<close>
  holds of the dict that the cycle returns.
\<close>

lemma current_tariff_frame:
  assumes "current_tariff c w entry d = Inr d'" "k \<noteq> ''tarif_actuel_ttc''" "k \<noteq> ''is_off_peak''"
  shows "d' k = d k"
  using assms by (auto simp: current_tariff_def Let_def split: if_splits sum.splits)

lemma cycle_runs_handle_tempo:
  assumes tempo: "contract_type entry = CONTRACT_TYPE_TEMPO c"
    and ret: "async_update_data c fl w entry s = (Inr d3, s3)"
  shows "\<exists>d1 s1 d2 s2.
           refresh_tariff c fl w entry (case data s of None \<Rightarrow> initial_data entry | Some x \<Rightarrow> x) s =
             (None, d1, s1) \<and>
           handle_tempo c w d1 s1 = (d2, s2) \<and>
           current_tariff c w entry d2 = Inr d3 \<and>
           s3 = s2\<lparr>data := Some d3\<rparr> \<and>
           (\<forall>k. k \<noteq> ''tarif_actuel_ttc'' \<longrightarrow> k \<noteq> ''is_off_peak'' \<longrightarrow> d3 k = d2 k)"
proof -
  let ?d0 = "case data s of None \<Rightarrow> initial_data entry | Some x \<Rightarrow> x"
  obtain out d1 s1 where r: "refresh_tariff c fl w entry ?d0 s = (out, d1, s1)"
    by (cases "refresh_tariff c fl w entry ?d0 s")
  obtain d2 s2 where h: "handle_tempo c w d1 s1 = (d2, s2)"
    by (cases "handle_tempo c w d1 s1")
  have out: "out = None"
    using ret r by (cases out) (simp_all add: async_update_data_def)
  have ct: "current_tariff c w entry d2 = Inr d3" and s3: "s3 = s2\<lparr>data := Some d3\<rparr>"
    using ret r h out tempo
    by (cases "current_tariff c w entry d2"; simp add: async_update_data_def)+
  show ?thesis using r h out ct s3 current_tariff_frame [OF ct] by blast
qed

section \<open>The current tariff\<close>

lemma scan_ranges_decides:
  assumes "\<forall>e\<in>set es. \<forall>x. parse_range e \<noteq> Some (Inl x)"
  shows "scan_ranges now_t es =
           Inr (\<exists>e\<in>set es. \<exists>a b. parse_range e = Some (Inr (a, b)) \<and> time_in_between now_t a b)"
  using assms
proof (induction es)
  case Nil
  show ?case by simp
next
  case (Cons e es)
  then have ih: "scan_ranges now_t es =
           Inr (\<exists>e\<in>set es. \<exists>a b. parse_range e = Some (Inr (a, b)) \<and> time_in_between now_t a b)"
    by simp
  show ?case
  proof (cases "parse_range e")
    case None
    then show ?thesis using ih by simp
  next
    case (Some r)
    then obtain a b where r: "r = Inr (a, b)" using Cons.prems by (cases r) auto
    have here: "(\<exists>a' b'. parse_range e = Some (Inr (a', b')) \<and> time_in_between now_t a' b') =
                  time_in_between now_t a b"
      using Some r by (simp del: split_paired_Ex)
    show ?thesis using Some r ih here by (simp del: split_paired_Ex)
  qed
qed

lemma off_peak_determination:
  assumes ct: "contract_type entry \<noteq> CONTRACT_TYPE_BASE c"
      "contract_type entry = CONTRACT_TYPE_HPHC c \<or> contract_type entry = CONTRACT_TYPE_TEMPO c"
    and sched: "off_peak_hours_ranges entry = Some v" "v \<noteq> []"
    and ok: "\<forall>e\<in>set (split_on CHR '','' v). \<forall>x. parse_range e \<noteq> Some (Inl x)"
  shows "\<exists>d'. current_tariff c w entry d = Inr d' \<and>
           (let off = (\<exists>e\<in>set (split_on CHR '','' v). \<exists>a b.
                         parse_range e = Some (Inr (a, b)) \<and> time_in_between (snd (clock w)) a b);
                key = (if contract_type entry = CONTRACT_TYPE_HPHC c then ''hphc'' else ''tempo'')
            in d' ''is_off_peak'' = Some (PBool off) \<and>
               d' ''tarif_actuel_ttc'' =
                 Some (if off then get d (key @ ''_variable_hc_ttc'')
                       else get d (key @ ''_variable_hp_ttc'')))"
  using ct sched scan_ranges_decides [OF ok, of "snd (clock w)"]
  by (auto simp: current_tariff_def Let_def)

text \<open>
  C3. Off-peak determination: for every cycle of an hphc or tempo contract with a
  schedule, an entry that fails the pattern \<^verbatim>\<open>HH:MM-HH:MM\<close> is to be passed over without
  ending the cycle, and \<^verbatim>\<open>is_off_peak\<close> and \<^verbatim>\<open>tarif_actuel_ttc\<close> follow the first range
  that holds the clock. The code does so on the schedules of \<open>off_peak_determination\<close>;
  but line 445 matches the pattern at the start of the entry only, so that an entry
  such as \<^verbatim>\<open>22:00-06:00;12:00-14:00\<close> passes it, \<^verbatim>\<open>str_to_time\<close> raises \<^verbatim>\<open>ValueError\<close> on
  \<^verbatim>\<open>06:00;12:00\<close>, and the cycle ends with that exception.
\<close>

theorem off_peak_prefix_match_raises:
  "range_re ''22:00-06:00;12:00-14:00'' \<and>
   parse_range ''22:00-06:00;12:00-14:00'' = Some (Inl ValueError) \<and>
   raised (fst (async_update_data sample_const sample_float
     (world_of ((2024, 7, 14), (23, 0, 0, 0)) ClientError ClientError)
     (entry_of ''hphc'' (Some ''22:00-06:00;12:00-14:00'')) fresh_state)) = Some ValueError"
  by code_simp

section \<open>The theorems on the sample inputs\<close>

lemma sample_limit: "str_to_time (TEMPO_TOMRROW_AVAILABLE_AT sample_const) = Inr (11, 0, 0, 0)"
  by code_simp


lemma sample_iso:
  "isoformat (2024, 7, 13) = ''2024-07-13''"
  "isoformat (2024, 7, 14) = ''2024-07-14''"
  "isoformat (2024, 7, 15) = ''2024-07-15''"
  by code_simp+


lemma sample_zero_range: "parse_range ''00:00-00:00'' = Some (Inr ((0, 0, 0, 0), (0, 0, 0, 0)))"
  by code_simp

theorem equal_endpoints_empty_witness:
  "parse_range ''00:00-00:00'' = Some (Inr ((0, 0, 0, 0), (0, 0, 0, 0))) \<and>
   \<not> time_in_between (0, 0, 0, 0) (0, 0, 0, 0) (0, 0, 0, 0) \<and>
   scan_ranges (12, 0, 0, 0) [''00:00-00:00''] = Inr False"
  using equal_endpoints_empty [of "(12, 0, 0, 0)" "(0, 0, 0, 0)" "''00:00-00:00''" "[]"]
    equal_endpoints_empty [of "(0, 0, 0, 0)" "(0, 0, 0, 0)" "''00:00-00:00''" "[]"]
  by (simp add: sample_zero_range)

lemma sample_rows_complete:
  "no_missing_cell row_jan" "no_missing_cell row_jun_a" "no_missing_cell row_jun_b"
  by (simp_all add: no_missing_cell_def row_jan_def row_jun_a_def row_jun_b_def)

theorem tariff_row_selection_witness:
  "no_missing_cell row_jan \<and> no_missing_cell row_jun_a \<and> no_missing_cell row_jun_b \<and>
   examine_row (2024, 7, 14) ''6'' row_jan =
     Inr (if is_candidate (2024, 7, 14) ''6'' row_jan then start_date_of row_jan else None) \<and>
   (\<exists>res. scan_rows (2024, 7, 14) ''6'' None [row_jan, row_jun_a, row_jun_b] = Inr res \<and>
      selects_first_latest (2024, 7, 14) ''6'' [row_jan, row_jun_a, row_jun_b] res)"
proof -
  have complete: "\<forall>r\<in>set [row_jan, row_jun_a, row_jun_b]. no_missing_cell r"
    by (simp add: sample_rows_complete)
  from tariff_row_selection [OF complete, of "(2024, 7, 14)" "''6''" sample_const sample_float "''hphc''"]
  obtain res where "scan_rows (2024, 7, 14) ''6'' None [row_jan, row_jun_a, row_jun_b] = Inr res"
    "selects_first_latest (2024, 7, 14) ''6'' [row_jan, row_jun_a, row_jun_b] res"
    and "\<forall>r\<in>set [row_jan, row_jun_a, row_jun_b]. examine_row (2024, 7, 14) ''6'' r =
           Inr (if is_candidate (2024, 7, 14) ''6'' r then start_date_of r else None)"
    by blast
  then show ?thesis
    by (intro conjI exI [of _ res]) (simp_all add: sample_rows_complete del: scan_rows.simps)
qed

lemma sample_examine:
  "examine_row (2024, 7, 14) ''6'' row_jun_a = Inr (Some (2024, 6, 1))"
  "examine_row (2024, 7, 14) ''6'' row_jun_b = Inr (Some (2024, 6, 1))"
  by code_simp+

lemma sample_candidate:
  "is_candidate (2024, 7, 14) ''6'' row_jun_b" "start_date_of row_jun_b = Some (2024, 6, 1)"
  by code_simp+

text \<open>
  Two candidate rows of the same start date, 1 June 2024, which differ in their prices:
  the loop keeps the first one, where C1 has the last one win.
\<close>

theorem tie_keeps_first_row:
  "scan_rows (2024, 7, 14) ''6'' None [row_jun_a, row_jun_b] = Inr (Some ((2024, 6, 1), row_jun_a)) \<and>
   is_candidate (2024, 7, 14) ''6'' row_jun_b \<and>
   start_date_of row_jun_b = Some (2024, 6, 1) \<and>
   row_jun_a ''PART_FIXE_TTC'' = Some (Some ''151,20'') \<and>
   row_jun_b ''PART_FIXE_TTC'' = Some (Some ''152,40'')"
  by (simp add: sample_examine sample_candidate) (simp add: row_jun_a_def row_jun_b_def)

lemma sample_find:
  "find (servable ''2024-07-13'' (12, 0, 0, 0) (11, 0, 0, 0)) (tempo_prices tempo_cache) =
     Some (day_record ''2024-07-13'' 1)"
  "find (servable ''2024-07-14'' (12, 0, 0, 0) (11, 0, 0, 0)) (tempo_prices tempo_cache) = None"
  by (simp_all add: tempo_cache_def servable_def day_record_def get_or_def)

theorem cache_lookup_witness:
  "str_to_time (TEMPO_TOMRROW_AVAILABLE_AT sample_const) = Inr (11, 0, 0, 0) \<and>
   get_tempo_day sample_const (world_of ((2024, 7, 14), (12, 0, 0, 0)) ClientError ClientError)
       (2024, 7, 13) tempo_cache = Inr (day_record ''2024-07-13'' 1, tempo_cache) \<and>
   (\<exists>r s'. get_tempo_day sample_const (world_of ((2024, 7, 14), (12, 0, 0, 0)) ClientError ClientError)
              (2024, 7, 14) tempo_cache = Inr (r, s') \<and>
            requests s' = requests tempo_cache @ [day_url sample_const (2024, 7, 14)])"
  using cache_lookup [OF sample_limit, where day = "(2024, 7, 13)" and s = tempo_cache
      and w = "world_of ((2024, 7, 14), (12, 0, 0, 0)) ClientError ClientError"]
    cache_lookup [OF sample_limit, where day = "(2024, 7, 14)" and s = tempo_cache
      and w = "world_of ((2024, 7, 14), (12, 0, 0, 0)) ClientError ClientError"]
  by (simp add: sample_limit sample_iso sample_find world_of_def del: isoformat.simps)

lemma sample_answers:
  "answer_bad_code ''codeJour'' \<noteq> None" "answer_bad_code ''dateJour'' = None"
  "answer_other_date ''codeJour'' \<noteq> None" "answer_other_date ''dateJour'' \<noteq> None"
  by (simp_all add: answer_bad_code_def answer_other_date_def)

theorem get_tempo_day_total_witness:
  "str_to_time (TEMPO_TOMRROW_AVAILABLE_AT sample_const) = Inr (11, 0, 0, 0) \<and>
   (\<exists>s'. get_tempo_day sample_const
              (world_of ((2024, 7, 14), (12, 0, 0, 0)) ClientError (Fetched NotDict))
              (2024, 7, 14) tempo_cache =
            Inr ([''dateJour'' \<mapsto> JStr ''2024-07-14'', ''codeJour'' \<mapsto> JInt 0], s') \<and>
          tempo_prices s' = tempo_prices tempo_cache @
            [[''dateJour'' \<mapsto> JStr ''2024-07-14'', ''codeJour'' \<mapsto> JInt 0]]) \<and>
   (\<exists>s'. get_tempo_day sample_const
              (world_of ((2024, 7, 14), (12, 0, 0, 0)) ClientError (Fetched (Dict answer_bad_code)))
              (2024, 7, 14) tempo_cache =
            Inr (answer_bad_code(''dateJour'' \<mapsto> JStr ''2024-07-14''), s') \<and>
          tempo_prices s' = tempo_prices tempo_cache @
            [answer_bad_code(''dateJour'' \<mapsto> JStr ''2024-07-14'')]) \<and>
   (\<exists>s'. get_tempo_day sample_const
              (world_of ((2024, 7, 14), (12, 0, 0, 0)) ClientError (Fetched (Dict answer_other_date)))
              (2024, 7, 14) tempo_cache = Inr (answer_other_date, s') \<and>
          tempo_prices s' = tempo_prices tempo_cache @ [answer_other_date]) \<and>
   (\<exists>s'. get_tempo_day sample_const
              (world_of ((2024, 7, 14), (12, 0, 0, 0)) ClientError OtherException)
              (2024, 7, 14) tempo_cache =
            Inr ([''dateJour'' \<mapsto> JStr ''2024-07-14'', ''codeJour'' \<mapsto> JInt 0], s') \<and>
          tempo_prices s' = tempo_prices tempo_cache) \<and>
   get_tempo_day sample_const
     (world_of ((2024, 7, 14), (12, 0, 0, 0)) ClientError OtherException)
     (2024, 7, 13) tempo_cache = Inr (day_record ''2024-07-13'' 1, tempo_cache)"
proof -
  let ?t = "((2024, 7, 14), (12, 0, 0, 0)) :: datetime"
  have a: "\<exists>s'. get_tempo_day sample_const (world_of ?t ClientError (Fetched NotDict))
              (2024, 7, 14) tempo_cache =
            Inr ([''dateJour'' \<mapsto> JStr ''2024-07-14'', ''codeJour'' \<mapsto> JInt 0], s') \<and>
          tempo_prices s' = tempo_prices tempo_cache @
            [[''dateJour'' \<mapsto> JStr ''2024-07-14'', ''codeJour'' \<mapsto> JInt 0]]"
    using get_tempo_day_total [OF sample_limit, where day = "(2024, 7, 14)" and s = tempo_cache
      and w = "world_of ?t ClientError (Fetched NotDict)"]
    by (auto simp add: sample_iso sample_find world_of_def simp del: isoformat.simps)
  have b: "\<exists>s'. get_tempo_day sample_const (world_of ?t ClientError (Fetched (Dict answer_bad_code)))
              (2024, 7, 14) tempo_cache =
            Inr (answer_bad_code(''dateJour'' \<mapsto> JStr ''2024-07-14''), s') \<and>
          tempo_prices s' = tempo_prices tempo_cache @
            [answer_bad_code(''dateJour'' \<mapsto> JStr ''2024-07-14'')]"
    using get_tempo_day_total [OF sample_limit, where day = "(2024, 7, 14)" and s = tempo_cache
      and w = "world_of ?t ClientError (Fetched (Dict answer_bad_code))"] sample_answers
    by (auto simp add: sample_iso sample_find world_of_def simp del: isoformat.simps)
  have c: "\<exists>s'. get_tempo_day sample_const (world_of ?t ClientError (Fetched (Dict answer_other_date)))
              (2024, 7, 14) tempo_cache = Inr (answer_other_date, s') \<and>
          tempo_prices s' = tempo_prices tempo_cache @ [answer_other_date]"
    using get_tempo_day_total [OF sample_limit, where day = "(2024, 7, 14)" and s = tempo_cache
      and w = "world_of ?t ClientError (Fetched (Dict answer_other_date))"] sample_answers
    by (auto simp add: sample_iso sample_find world_of_def simp del: isoformat.simps)
  have e: "\<exists>s'. get_tempo_day sample_const (world_of ?t ClientError OtherException)
              (2024, 7, 14) tempo_cache =
            Inr ([''dateJour'' \<mapsto> JStr ''2024-07-14'', ''codeJour'' \<mapsto> JInt 0], s') \<and>
          tempo_prices s' = tempo_prices tempo_cache"
    using get_tempo_day_total [OF sample_limit, where day = "(2024, 7, 14)" and s = tempo_cache
      and w = "world_of ?t ClientError OtherException"]
    by (auto simp add: sample_iso sample_find world_of_def simp del: isoformat.simps)
  have h: "get_tempo_day sample_const (world_of ?t ClientError OtherException)
             (2024, 7, 13) tempo_cache = Inr (day_record ''2024-07-13'' 1, tempo_cache)"
    using get_tempo_day_total [OF sample_limit, where day = "(2024, 7, 13)" and s = tempo_cache
      and w = "world_of ?t ClientError OtherException"]
    by (auto simp add: sample_iso sample_find world_of_def simp del: isoformat.simps)
  show ?thesis using a b c e h by (simp add: sample_limit)
qed

text \<open>
  A day that is not in the cache, and a fetch that fails with a network error: the
  record returned has the code 0, and the cache is still empty, where C6 has every
  returned record appended to the cache.
\<close>

theorem network_error_not_cached:
  "\<exists>r s'. get_tempo_day sample_const (world_of ((2024, 7, 14), (12, 0, 0, 0)) ClientError ClientError)
             (2024, 7, 14) (init :: string coordinator) = Inr (r, s') \<and>
           r ''codeJour'' = Some (JInt 0) \<and> tempo_prices s' = []"
  by (simp add: get_tempo_day_def sample_limit Let_def init_def world_of_def unknown_day_def)


lemma sample_ordinal: "toordinal (2024, 7, 14) = 739081"
  by code_simp

lemma sample_in_range:
  "days_in_range ((2024, 7, 14), t) (refresh_interval_of sample_const (entry_of ctype ranges))"
  by (simp add: days_in_range_def refresh_interval_of_def entry_of_def sample_const_def
      sample_ordinal del: toordinal.simps)

lemma sample_out_of_range:
  "\<not> days_in_range ((2024, 7, 14), t) (refresh_interval_of sample_const (entry_with ctype 3000000))"
  by (simp add: days_in_range_def refresh_interval_of_def entry_with_def sample_ordinal
      del: toordinal.simps)

lemma sample_due:
  "refresh_due sample_const w entry (initial_data entry)"
  by (simp add: refresh_due_def initial_data_def get_def get_or_def)

lemma sample_url: "tariff_url sample_const ''hphc'' = Inr ''https://tarif.example/hphc.csv''"
  by (simp add: tariff_url_def sample_const_def)

lemma sample_refreshed:
  "fst (snd (refresh_tariff sample_const sample_float
          (world_of ((2024, 7, 14), (12, 0, 0, 0)) (Fetched [row_jan, row_jun_a]) ClientError)
          (entry_of ''hphc'' None) (initial_data (entry_of ''hphc'' None)) init)) ''last_refresh_at'' =
     Some (PDatetime ((2024, 7, 14), (12, 0, 0, 0)))"
  "fst (snd (refresh_tariff sample_const sample_float
          (world_of ((2024, 7, 14), (12, 0, 0, 0)) (Fetched [row_jan, row_jun_a]) ClientError)
          (entry_of ''hphc'' None) (initial_data (entry_of ''hphc'' None)) init)) ''hphc_variable_hp_ttc'' =
     Some (PFloat ''0.27'')"
  by code_simp+

theorem refresh_atomic_witness:
  "refresh_due sample_const (world_of ((2024, 7, 14), (12, 0, 0, 0)) ClientError ClientError)
     (entry_of ''hphc'' None) (initial_data (entry_of ''hphc'' None) :: string pydict) \<and>
   days_in_range (clock (world_of ((2024, 7, 14), (12, 0, 0, 0)) ClientError ClientError))
     (refresh_interval_of sample_const (entry_of ''hphc'' None)) \<and>
   fst (refresh_tariff sample_const sample_float
          (world_of ((2024, 7, 14), (12, 0, 0, 0)) ClientError ClientError)
          (entry_of ''hphc'' None) (initial_data (entry_of ''hphc'' None)) init) = Some UpdateFailed \<and>
   fst (snd (refresh_tariff sample_const sample_float
          (world_of ((2024, 7, 14), (12, 0, 0, 0)) ClientError ClientError)
          (entry_of ''hphc'' None) (initial_data (entry_of ''hphc'' None)) init)) =
     initial_data (entry_of ''hphc'' None) \<and>
   raised (fst (async_update_data sample_const sample_float
          (world_of ((2024, 7, 14), (12, 0, 0, 0)) ClientError ClientError)
          (entry_of ''hphc'' None) init)) = Some UpdateFailed \<and>
   fst (refresh_tariff sample_const sample_float
          (world_of ((2024, 7, 14), (12, 0, 0, 0)) (Fetched []) ClientError)
          (entry_of ''hphc'' None) (initial_data (entry_of ''hphc'' None)) init) = None \<and>
   fst (snd (refresh_tariff sample_const sample_float
          (world_of ((2024, 7, 14), (12, 0, 0, 0)) (Fetched []) ClientError)
          (entry_of ''hphc'' None) (initial_data (entry_of ''hphc'' None)) init)) =
     initial_data (entry_of ''hphc'' None) \<and>
   fst (snd (refresh_tariff sample_const sample_float
          (world_of ((2024, 7, 14), (12, 0, 0, 0)) (Fetched [row_jan, row_jun_a]) ClientError)
          (entry_of ''hphc'' None) (initial_data (entry_of ''hphc'' None)) init)) \<noteq>
     initial_data (entry_of ''hphc'' None) \<and>
   (\<exists>m. scan_rows (2024, 7, 14) ''6'' None [row_jan, row_jun_a] = Inr (Some m)) \<and>
   fst (refresh_tariff sample_const sample_float
          (world_of ((2024, 7, 14), (12, 0, 0, 0)) (Fetched [row_jan, row_jun_a]) ClientError)
          (entry_of ''hphc'' None) (initial_data (entry_of ''hphc'' None)) init) = None \<and>
   \<not> days_in_range (clock (world_of ((2024, 7, 14), (12, 0, 0, 0)) (Fetched [row_jan, row_jun_a]) ClientError))
     (refresh_interval_of sample_const (entry_with ''hphc'' 3000000)) \<and>
   fst (refresh_tariff sample_const sample_float
          (world_of ((2024, 7, 14), (12, 0, 0, 0)) (Fetched [row_jan, row_jun_a]) ClientError)
          (entry_with ''hphc'' 3000000) (initial_data (entry_with ''hphc'' 3000000)) init) =
     Some OverflowError \<and>
   fst (snd (refresh_tariff sample_const sample_float
          (world_of ((2024, 7, 14), (12, 0, 0, 0)) (Fetched [row_jan, row_jun_a]) ClientError)
          (entry_with ''hphc'' 3000000) (initial_data (entry_with ''hphc'' 3000000)) init)) =
     initial_data (entry_with ''hphc'' 3000000) \<and>
   raised (fst (async_update_data sample_const sample_float
          (world_of ((2024, 7, 14), (12, 0, 0, 0)) (Fetched [row_jan, row_jun_a]) ClientError)
          (entry_with ''hphc'' 3000000) init)) = Some OverflowError"
proof -
  let ?t = "((2024, 7, 14), (12, 0, 0, 0)) :: datetime"
  let ?w = "world_of ?t ClientError ClientError"
  let ?v = "world_of ?t (Fetched []) ClientError"
  let ?u = "world_of ?t (Fetched [row_jan, row_jun_a]) ClientError"
  let ?e = "entry_of ''hphc'' None"
  let ?f = "entry_with ''hphc'' 3000000"
  let ?d = "initial_data ?e :: string pydict"
  let ?g = "initial_data ?f :: string pydict"
  let ?R = "refresh_tariff sample_const sample_float ?w ?e ?d (init :: string coordinator)"
  let ?S = "refresh_tariff sample_const sample_float ?v ?e ?d (init :: string coordinator)"
  let ?T = "refresh_tariff sample_const sample_float ?u ?e ?d (init :: string coordinator)"
  let ?O = "refresh_tariff sample_const sample_float ?u ?f ?g (init :: string coordinator)"
  have runR: "?R = (fst ?R, fst (snd ?R), snd (snd ?R))"
    and runS: "?S = (fst ?S, fst (snd ?S), snd (snd ?S))"
    and runT: "?T = (fst ?T, fst (snd ?T), snd (snd ?T))"
    and runO: "?O = (fst ?O, fst (snd ?O), snd (snd ?O))" by simp_all
  have d: "?d = (case data (init :: string coordinator) of None \<Rightarrow> initial_data ?e | Some x \<Rightarrow> x)"
    and g: "?g = (case data (init :: string coordinator) of None \<Rightarrow> initial_data ?f | Some x \<Rightarrow> x)"
    by (simp_all add: init_def)
  have url: "tariff_url sample_const (contract_type ?e) = Inr ''https://tarif.example/hphc.csv''"
    by (simp add: entry_of_def sample_url)
  have today: "fst (clock ?v) = (2024, 7, 14)" "fst (clock ?u) = (2024, 7, 14)"
    "contract_power ?e = ''6''"
    by (simp_all add: world_of_def entry_of_def)
  have range: "days_in_range (clock ?w) (refresh_interval_of sample_const ?e)"
    "days_in_range (clock ?v) (refresh_interval_of sample_const ?e)"
    "days_in_range (clock ?u) (refresh_interval_of sample_const ?e)"
    and far: "\<not> days_in_range (clock ?u) (refresh_interval_of sample_const ?f)"
    by (simp_all add: world_of_def sample_in_range sample_out_of_range)
  have down: "fetch_table ?w ''https://tarif.example/hphc.csv'' = ClientError"
    and empty: "fetch_table ?v ''https://tarif.example/hphc.csv'' = Fetched []"
    and table: "fetch_table ?u ''https://tarif.example/hphc.csv'' = Fetched [row_jan, row_jun_a]"
    by (simp_all add: world_of_def)
  from refresh_atomic [OF runR d] sample_due range(1) url down
  have r: "fst ?R = Some UpdateFailed \<and> fst (snd ?R) = ?d"
    by blast
  from refresh_atomic [OF runR d] r
  have c: "async_update_data sample_const sample_float ?w ?e init =
           (Inl UpdateFailed, (snd (snd ?R))\<lparr>data := Some ?d\<rparr>)"
    by blast
  have none: "scan_rows (fst (clock ?v)) (contract_power ?e) None [] = Inr None" by simp
  from refresh_atomic [OF runS d] sample_due range(2) url empty none
  have s: "fst ?S = None \<and> fst (snd ?S) = ?d"
    by blast
  have unset: "?d ''last_refresh_at'' = Some PNone" by (simp add: initial_data_def)
  have "fst (snd ?T) ''last_refresh_at'' \<noteq> ?d ''last_refresh_at''"
    unfolding unset sample_refreshed(1) by simp
  then have changed: "fst (snd ?T) \<noteq> ?d" by metis
  from refresh_atomic [OF runT d] changed
  obtain url' content m where
    "tariff_url sample_const (contract_type ?e) = Inr url'" "fetch_table ?u url' = Fetched content"
    "scan_rows (fst (clock ?u)) (contract_power ?e) None content = Inr (Some m)" "fst ?T = None"
    by blast
  then have t: "(\<exists>m. scan_rows (2024, 7, 14) ''6'' None [row_jan, row_jun_a] = Inr (Some m)) \<and> fst ?T = None"
    using url table today by (auto simp del: scan_rows.simps)
  from refresh_atomic [OF runO g] far
  have o: "fst ?O = Some OverflowError \<and> fst (snd ?O) = ?g"
    by blast
  from refresh_atomic [OF runO g] o
  have p: "async_update_data sample_const sample_float ?u ?f init =
           (Inl OverflowError, (snd (snd ?O))\<lparr>data := Some ?g\<rparr>)"
    by blast
  show ?thesis using r c s t changed o p range(1) far sample_due [of ?w ?e]
    by (simp add: raised_def del: scan_rows.simps)
qed


















end
